theory Spec2Isabelle
  imports Main
begin

section \<open>JavaScript values\<close>

text \<open>
  The fields the program reads from JSON bodies, query strings and \<open>dataset\<close>
  attributes are strings that may be missing. \<open>Undefined\<close> is a missing field,
  \<open>Null\<close> a JSON null, \<open>Str s\<close> a string (a list of code units, so \<open>length\<close>
  is the \<open>.length\<close> of JavaScript).
\<close>

datatype js_value = Undefined | Null | Str string

text \<open>Truthiness, as tested by \<open>!x\<close>, \<open>x && y\<close> and \<open>x || y\<close>.\<close>

fun truthy :: "js_value \<Rightarrow> bool" where
  "truthy (Str s) = (s \<noteq> [])"
| "truthy Undefined = False"
| "truthy Null = False"

text \<open>\<open>a || b\<close>.\<close>

definition js_or :: "js_value \<Rightarrow> js_value \<Rightarrow> js_value" where
  "js_or a b = (if truthy a then a else b)"

text \<open>The string a value becomes inside a template literal.\<close>

fun to_text :: "js_value \<Rightarrow> string" where
  "to_text (Str s) = s"
| "to_text Undefined = ''undefined''"
| "to_text Null = ''null''"

text \<open>
  The text an element shows once a value is assigned to its \<open>textContent\<close>: a missing
  value and null both give the empty text.
\<close>

fun to_textContent :: "js_value \<Rightarrow> string" where
  "to_textContent (Str s) = s"
| "to_textContent Undefined = []"
| "to_textContent Null = []"

text \<open>A non-negative integer inside a template literal: its decimal digits.\<close>

fun show_nat :: "nat \<Rightarrow> string" where
  "show_nat n =
     (if n < 10 then [''0123456789'' ! n]
      else show_nat (n div 10) @ [''0123456789'' ! (n mod 10)])"

declare show_nat.simps [simp del]

text \<open>
  What an awaited \<open>fetch\<close> followed by \<open>response.json()\<close> gives: either of the
  two rejects with an error message, or there is a status and a parsed body (an
  object). \<open>response.ok\<close> is true for the statuses 200 to 299.
\<close>

datatype 'd fetch_result = Fetch_failed string | Response nat 'd

definition response_ok :: "nat \<Rightarrow> bool" where
  "response_ok status = (200 \<le> status \<and> status \<le> 299)"

section \<open>The client: public/script.js\<close>

subsection \<open>Application state\<close>

record video =
  video_id :: js_value
  video_title :: js_value

text \<open>\<open>currentPlaylist\<close>: \<open>{ title, videos, currentIndex }\<close>, or null.\<close>

record playlist =
  pl_title :: js_value
  videos :: "video list"
  currentIndex :: nat

text \<open>\<open>nextAudioInfo\<close>: \<open>{ audioUrl, title }\<close>, the track staged until the announcement is over.\<close>

record audio_info =
  audioUrl :: js_value
  title :: js_value

text \<open>
  The two audio elements: \<open>ttsPlayer\<close> is the announcement channel, \<open>audioPlayer\<close>
  the primary one.
\<close>

datatype channel = Announcement | Primary

datatype source =
    Tts_url string      \<comment> \<open>\<open>/api/tts?text=...\<close>, with the text to speak\<close>
  | Stream_url js_value \<comment> \<open>the \<open>audioUrl\<close> of a resolved track\<close>

text \<open>
  What a handler asks of the outside world, in the order it asks: network calls, calls on
  the audio elements and timers.
\<close>

datatype effect =
    Fetch_playlist js_value  \<comment> \<open>\<open>fetch('/api/playlist?id=...')\<close>\<close>
  | Fetch_play js_value      \<comment> \<open>\<open>fetch('/api/play?id=...')\<close>\<close>
  | Channel_pause channel    \<comment> \<open>\<open>pause()\<close>\<close>
  | Channel_load channel source \<comment> \<open>assignment to \<open>src\<close>\<close>
  | Channel_play channel     \<comment> \<open>\<open>play()\<close>\<close>
  | Set_timeout_next         \<comment> \<open>\<open>setTimeout(playNextTrackInPlaylist, 1500)\<close>\<close>

text \<open>
  The three state variables of the script, the \<open>src\<close> of the two audio elements, the
  part of the page the handlers write (which elements carry the class \<open>hidden\<close>, the
  texts, the disabled flag of the next button), and the log of effects.
\<close>

record app_state =
  currentPlaylist :: "playlist option"
  isTTSPlaying :: bool
  nextAudioInfo :: "audio_info option"
  audioPlayer_src :: "source option"
  ttsPlayer_src :: "source option"
  currentTrackText :: string
  playlistInfoText :: string
  loadingText :: string
  errorText :: string
  playerHidden :: bool
  playlistInfoHidden :: bool
  nextButtonHidden :: bool
  nextButtonDisabled :: bool
  loadingHidden :: bool
  errorHidden :: bool
  effects :: "effect list"

text \<open>
  The state once the \<open>DOMContentLoaded\<close> handler has run: no playlist, nothing staged,
  every element hidden and the next button disabled. The texts of the page come from its
  markup; they are empty here.
\<close>

definition initial_state :: app_state where
  "initial_state =
     \<lparr>currentPlaylist = None, isTTSPlaying = False, nextAudioInfo = None,
      audioPlayer_src = None, ttsPlayer_src = None,
      currentTrackText = [], playlistInfoText = [], loadingText = [], errorText = [],
      playerHidden = True, playlistInfoHidden = True, nextButtonHidden = True,
      nextButtonDisabled = True, loadingHidden = True, errorHidden = True,
      effects = []\<rparr>"

subsection \<open>Utility functions\<close>

definition emit :: "effect \<Rightarrow> app_state \<Rightarrow> app_state" where
  "emit x s = s\<lparr>effects := effects s @ [x]\<rparr>"

text \<open>Assignment to the \<open>src\<close> of an audio element.\<close>

fun set_src :: "channel \<Rightarrow> source \<Rightarrow> app_state \<Rightarrow> app_state" where
  "set_src Primary u s = emit (Channel_load Primary u) (s\<lparr>audioPlayer_src := Some u\<rparr>)"
| "set_src Announcement u s = emit (Channel_load Announcement u) (s\<lparr>ttsPlayer_src := Some u\<rparr>)"

definition showLoading :: "string \<Rightarrow> app_state \<Rightarrow> app_state" where
  "showLoading msg s = s\<lparr>errorHidden := True, loadingText := msg, loadingHidden := False\<rparr>"

definition hideLoading :: "app_state \<Rightarrow> app_state" where
  "hideLoading s = s\<lparr>loadingHidden := True\<rparr>"

definition showError :: "string \<Rightarrow> app_state \<Rightarrow> app_state" where
  "showError msg s = (hideLoading s)\<lparr>errorText := msg, errorHidden := False\<rparr>"

definition hideError :: "app_state \<Rightarrow> app_state" where
  "hideError s = s\<lparr>errorHidden := True\<rparr>"

subsection \<open>Core application logic\<close>

definition updatePlaylistUI :: "app_state \<Rightarrow> app_state" where
  "updatePlaylistUI s =
     (case currentPlaylist s of
        Some p \<Rightarrow>
          s\<lparr>playlistInfoText :=
               ''Playlist: '' @ to_text (pl_title p) @ '' ('' @ show_nat (currentIndex p + 1)
                 @ '' / '' @ show_nat (length (videos p)) @ '')'',
            playlistInfoHidden := False\<rparr>
      | None \<Rightarrow> s\<lparr>playlistInfoHidden := True\<rparr>)"

text \<open>
  \<open>playMainAudio\<close>: hands the staged track to the primary channel and clears it. The
  callbacks of the promise of \<open>audioPlayer.play()\<close> run later; they are
  \<open>audioPlayer_play_then\<close> and \<open>audioPlayer_play_catch\<close> below.
\<close>

definition playMainAudio :: "app_state \<Rightarrow> app_state" where
  "playMainAudio s =
     (case nextAudioInfo s of
        None \<Rightarrow> (if currentPlaylist s = None then s\<lparr>playerHidden := True\<rparr> else s)
      | Some info \<Rightarrow>
          (let s = s\<lparr>currentTrackText := to_textContent (title info)\<rparr>;
               s = set_src Primary (Stream_url (audioUrl info)) s;
               s = emit (Channel_play Primary) s
           in s\<lparr>nextAudioInfo := None\<rparr>))"

text \<open>
  \<open>playTTS\<close>. The rejection of the promise of \<open>ttsPlayer.play()\<close> is handled later, by
  \<open>ttsPlayer_play_catch\<close> below.
\<close>

definition playTTS :: "string \<Rightarrow> app_state \<Rightarrow> app_state" where
  "playTTS text s =
     (if text = [] then (if nextAudioInfo s \<noteq> None then playMainAudio s else s)
      else
        (let s = s\<lparr>isTTSPlaying := True\<rparr>;
             s = emit (Channel_pause Primary) s;
             s = set_src Announcement (Tts_url text) s
         in emit (Channel_play Announcement) s))"

text \<open>
  \<open>fetchAndPrepareVideo\<close> is an async function. Up to its \<open>await\<close> it only issues the
  request; \<open>fetchAndPrepareVideo_resume\<close> is the rest, run when the answer is there, with
  the \<open>videoId\<close> and \<open>title\<close> of the call. The \<open>finally\<close> block hides the loading
  indicator on every path.
\<close>

definition fetchAndPrepareVideo :: "js_value \<Rightarrow> js_value \<Rightarrow> app_state \<Rightarrow> app_state" where
  "fetchAndPrepareVideo videoId ttl s = emit (Fetch_play videoId) s"

definition fetchAndPrepareVideo_catch :: "string \<Rightarrow> app_state \<Rightarrow> app_state" where
  "fetchAndPrepareVideo_catch msg s =
     (let s = showError (''Failed to load track: '' @ msg) s;
          s = s\<lparr>nextAudioInfo := None\<rparr>
      in if currentPlaylist s = None then s\<lparr>playerHidden := True\<rparr> else s)"

record play_data =
  data_error :: js_value
  data_audioUrl :: js_value
  data_title :: js_value

definition fetchAndPrepareVideo_resume ::
  "js_value \<Rightarrow> js_value \<Rightarrow> play_data fetch_result \<Rightarrow> app_state \<Rightarrow> app_state" where
  "fetchAndPrepareVideo_resume videoId ttl r s =
     hideLoading
       (case r of
          Fetch_failed msg \<Rightarrow> fetchAndPrepareVideo_catch msg s
        | Response status d \<Rightarrow>
            if \<not> response_ok status then
              fetchAndPrepareVideo_catch
                (to_text (js_or (data_error d)
                   (Str (''Failed to load track (Status: '' @ show_nat status @ '')'')))) s
            else
              (let info = \<lparr>audioUrl = data_audioUrl d, title = js_or (data_title d) ttl\<rparr>;
                   s = s\<lparr>nextAudioInfo := Some info\<rparr>;
                   s = (if currentPlaylist s \<noteq> None then updatePlaylistUI s
                        else s\<lparr>currentTrackText := to_textContent (title info),
                               playerHidden := False\<rparr>)
               in playTTS (''Changing now to '' @ to_text (title info)) s))"

text \<open>\<open>fetchPlaylist\<close>, async as well: the request, then \<open>fetchPlaylist_resume\<close>.\<close>

definition fetchPlaylist :: "js_value \<Rightarrow> app_state \<Rightarrow> app_state" where
  "fetchPlaylist playlistId s = emit (Fetch_playlist playlistId) s"

definition fetchPlaylist_catch :: "string \<Rightarrow> app_state \<Rightarrow> app_state" where
  "fetchPlaylist_catch msg s =
     (let s = showError (''Failed to load playlist: '' @ msg) s
      in s\<lparr>currentPlaylist := None, playlistInfoHidden := True, nextButtonHidden := True,
           nextButtonDisabled := True\<rparr>)"

text \<open>The body of \<open>/api/playlist\<close>; \<open>pd_videos\<close> is \<open>None\<close> when the field is missing.\<close>

record playlist_data =
  pd_error :: js_value
  pd_title :: js_value
  pd_videos :: "video list option"

definition fetchPlaylist_resume :: "playlist_data fetch_result \<Rightarrow> app_state \<Rightarrow> app_state" where
  "fetchPlaylist_resume r s =
     (case r of
        Fetch_failed msg \<Rightarrow> fetchPlaylist_catch msg s
      | Response status d \<Rightarrow>
          if \<not> response_ok status then
            fetchPlaylist_catch
              (to_text (js_or (pd_error d)
                 (Str (''Failed to load playlist (Status: '' @ show_nat status @ '')'')))) s
          else
            (case pd_videos d of
               Some (v # vs) \<Rightarrow>
                 (let s = s\<lparr>currentPlaylist :=
                             Some \<lparr>pl_title = pd_title d, videos = v # vs, currentIndex = 0\<rparr>\<rparr>;
                      s = updatePlaylistUI s;
                      s = s\<lparr>nextButtonHidden := False, nextButtonDisabled := False\<rparr>
                  in fetchAndPrepareVideo (video_id v) (video_title v) s)
             | _ \<Rightarrow> fetchPlaylist_catch ''Playlist is empty or contains no valid videos.'' s))"

text \<open>
  \<open>handleResultClick\<close>. The argument is the \<open>dataset\<close> of the closest \<open>.result-item\<close>
  of the click, \<open>None\<close> when there is no such element.
\<close>

record dataset =
  ds_id :: js_value
  ds_title :: js_value
  ds_type :: js_value

definition handleResultClick :: "dataset option \<Rightarrow> app_state \<Rightarrow> app_state" where
  "handleResultClick item s =
     (case item of
        None \<Rightarrow> s
      | Some d \<Rightarrow>
          if \<not> truthy (ds_id d) then s
          else
            (let s = s\<lparr>currentPlaylist := None, playlistInfoHidden := True,
                       nextButtonHidden := True, nextButtonDisabled := True\<rparr>;
                 s = showLoading ''Loading...'' s;
                 s = hideError s;
                 s = s\<lparr>currentTrackText := ''Loading...'', audioPlayer_src := None\<rparr>
             in if ds_type d = Str ''playlist'' then fetchPlaylist (ds_id d) s
                else fetchAndPrepareVideo (ds_id d) (ds_title d) s))"

text \<open>
  \<open>playNextTrackInPlaylist\<close>. \<open>videos[i]\<close> is undefined out of range, which takes the
  branch that stops the playlist.
\<close>

definition js_index :: "'a list \<Rightarrow> nat \<Rightarrow> 'a option" where
  "js_index xs i = (if i < length xs then Some (xs ! i) else None)"

definition playNextTrackInPlaylist :: "app_state \<Rightarrow> app_state" where
  "playNextTrackInPlaylist s =
     (case currentPlaylist s of
        None \<Rightarrow> s
      | Some p \<Rightarrow>
          if videos p = [] then s
          else
            (let s = s\<lparr>nextButtonDisabled := True\<rparr>;
                 p = p\<lparr>currentIndex := currentIndex p + 1\<rparr>;
                 p = (if currentIndex p \<ge> length (videos p) then p\<lparr>currentIndex := 0\<rparr> else p);
                 s = s\<lparr>currentPlaylist := Some p\<rparr>;
                 nextVideo = js_index (videos p) (currentIndex p);
                 s = (case nextVideo of
                        Some v \<Rightarrow>
                          if truthy (video_id v) then
                            (let s = showLoading ''Loading next track...'' s;
                                 s = fetchAndPrepareVideo (video_id v) (video_title v) s
                             in updatePlaylistUI s)
                          else
                            (showError ''Error in playlist. Cannot play next track.'' s)
                              \<lparr>currentPlaylist := None, playlistInfoHidden := True,
                               nextButtonHidden := True\<rparr>
                      | None \<Rightarrow>
                          (showError ''Error in playlist. Cannot play next track.'' s)
                            \<lparr>currentPlaylist := None, playlistInfoHidden := True,
                             nextButtonHidden := True\<rparr>)
             in s\<lparr>nextButtonDisabled := False\<rparr>))"

subsection \<open>Event listeners\<close>

text \<open>The \<open>ended\<close> listener of the primary channel.\<close>

definition audioPlayer_ended :: "app_state \<Rightarrow> app_state" where
  "audioPlayer_ended s =
     (if currentPlaylist s \<noteq> None then playNextTrackInPlaylist s
      else s\<lparr>currentTrackText := ''Finished''\<rparr>)"

text \<open>
  The \<open>error\<close> listener of the primary channel. Its argument is \<open>e.target.error\<close>, a
  \<open>MediaError\<close> or null; the four codes are those of the HTML standard.
\<close>

record media_error =
  err_code :: nat
  err_message :: js_value

definition MEDIA_ERR_ABORTED :: nat where "MEDIA_ERR_ABORTED = 1"
definition MEDIA_ERR_NETWORK :: nat where "MEDIA_ERR_NETWORK = 2"
definition MEDIA_ERR_DECODE :: nat where "MEDIA_ERR_DECODE = 3"
definition MEDIA_ERR_SRC_NOT_SUPPORTED :: nat where "MEDIA_ERR_SRC_NOT_SUPPORTED = 4"

definition playback_error_message :: "media_error option \<Rightarrow> string" where
  "playback_error_message err =
     (case err of
        None \<Rightarrow> ''An unknown playback error occurred.''
      | Some e \<Rightarrow>
          if err_code e = MEDIA_ERR_ABORTED then ''Playback aborted.''
          else if err_code e = MEDIA_ERR_NETWORK then ''Network error caused playback failure.''
          else if err_code e = MEDIA_ERR_DECODE then ''Audio decoding error.''
          else if err_code e = MEDIA_ERR_SRC_NOT_SUPPORTED then ''Audio format not supported.''
          else ''Playback error: '' @ to_text (js_or (err_message e) (Str ''Unknown code'')))"

definition audioPlayer_error :: "media_error option \<Rightarrow> app_state \<Rightarrow> app_state" where
  "audioPlayer_error err s =
     (let s = showError (playback_error_message err @ '' Try another track.'') s
      in if currentPlaylist s \<noteq> None then emit Set_timeout_next s
         else s\<lparr>playerHidden := True\<rparr>)"

text \<open>
  The callbacks of the promise of \<open>audioPlayer.play()\<close>. The rejection carries the name
  and the message of the error. The fulfilment callback reads \<open>nextAudioInfo.title\<close>,
  which throws a \<open>TypeError\<close> when nothing is staged any more; the \<open>catch\<close> chained after
  it then runs with that error, whose message is the engine's and is an argument here.
\<close>

definition audioPlayer_play_catch :: "string \<Rightarrow> string \<Rightarrow> app_state \<Rightarrow> app_state" where
  "audioPlayer_play_catch name msg s =
     (let s = (if name = ''NotAllowedError''
               then (showError
                       ''Playback blocked. Please press the play button on the player to start.'' s)
                      \<lparr>playerHidden := False\<rparr>
               else showError (''Playback error: '' @ msg) s)
      in hideLoading s)"

definition audioPlayer_play_then :: "string \<Rightarrow> app_state \<Rightarrow> app_state" where
  "audioPlayer_play_then type_error_message s =
     (case nextAudioInfo s of
        None \<Rightarrow> audioPlayer_play_catch ''TypeError'' type_error_message s
      | Some info \<Rightarrow> hideError (hideLoading (s\<lparr>playerHidden := False\<rparr>)))"

text \<open>The listeners of the announcement channel, and the \<open>catch\<close> of \<open>ttsPlayer.play()\<close>.\<close>

definition ttsPlayer_ended :: "app_state \<Rightarrow> app_state" where
  "ttsPlayer_ended s = playMainAudio (s\<lparr>isTTSPlaying := False\<rparr>)"

definition ttsPlayer_error :: "app_state \<Rightarrow> app_state" where
  "ttsPlayer_error s =
     (let s = s\<lparr>isTTSPlaying := False\<rparr>;
          s = showError ''TTS announcement failed. Playing track directly.'' s
      in playMainAudio s)"

definition ttsPlayer_play_catch :: "app_state \<Rightarrow> app_state" where
  "ttsPlayer_play_catch s = playMainAudio (s\<lparr>isTTSPlaying := False\<rparr>)"

subsection \<open>The event loop\<close>

text \<open>
  Everything that runs after page load runs in one of these callbacks: a click on a
  result, the answer to one of the two requests, a signal of one of the two audio
  elements, a click on the next button, the retry timer.
\<close>

datatype event =
    Result_click "dataset option"
  | Playlist_response "playlist_data fetch_result"
  | Play_response js_value js_value "play_data fetch_result"
  | Tts_ended
  | Tts_error
  | Tts_play_rejected
  | Audio_play_started string
  | Audio_play_rejected string string
  | Audio_ended
  | Audio_error "media_error option"
  | Next_click
  | Timeout_fired

fun step :: "event \<Rightarrow> app_state \<Rightarrow> app_state" where
  "step (Result_click item) s = handleResultClick item s"
| "step (Playlist_response r) s = fetchPlaylist_resume r s"
| "step (Play_response videoId ttl r) s = fetchAndPrepareVideo_resume videoId ttl r s"
| "step Tts_ended s = ttsPlayer_ended s"
| "step Tts_error s = ttsPlayer_error s"
| "step Tts_play_rejected s = ttsPlayer_play_catch s"
| "step (Audio_play_started m) s = audioPlayer_play_then m s"
| "step (Audio_play_rejected name msg) s = audioPlayer_play_catch name msg s"
| "step Audio_ended s = audioPlayer_ended s"
| "step (Audio_error err) s = audioPlayer_error err s"
| "step Next_click s = playNextTrackInPlaylist s"
| "step Timeout_fired s = playNextTrackInPlaylist s"

text \<open>The events of a list, handled one after the other.\<close>

fun run :: "event list \<Rightarrow> app_state \<Rightarrow> app_state" where
  "run [] s = s"
| "run (e # es) s = run es (step e s)"

section \<open>The server: the Express application\<close>

text \<open>
  A call into one of the libraries (youtube-sr, gtts) either throws an error, with its
  message, or returns. The libraries are arguments of the handlers below.
\<close>

datatype 'a outcome = Throws string | Returns 'a

text \<open>
  What a handler sends: \<open>res.status(code).json({ error, details })\<close> on the error
  paths, and the status 200 with a body otherwise.
\<close>

datatype 'b reply = Reply_error nat string "string option" | Reply_ok 'b

text \<open>A video as youtube-sr gives it; \<open>yt_thumbnail\<close> is the \<open>url\<close> of its thumbnail, if it has one.\<close>

record yt_video =
  yt_id :: js_value
  yt_title :: js_value
  yt_thumbnail :: "js_value option"
  yt_durationFormatted :: js_value

subsection \<open>GET /api/search\<close>

record search_item =
  item_id :: js_value
  item_title :: js_value
  item_thumbnail :: js_value
  item_duration :: js_value

definition simplify_result :: "yt_video \<Rightarrow> search_item" where
  "simplify_result item =
     \<lparr>item_id = yt_id item, item_title = yt_title item,
      item_thumbnail = (case yt_thumbnail item of None \<Rightarrow> Undefined | Some u \<Rightarrow> u),
      item_duration = yt_durationFormatted item\<rparr>"

definition api_search ::
  "js_value \<Rightarrow> (string \<Rightarrow> yt_video list outcome) \<Rightarrow> search_item list reply" where
  "api_search q youtube_search =
     (if \<not> truthy q then Reply_error 400 ''Search query \"q\" is required.'' None
      else
        (case youtube_search (to_text q @ '' chill relaxing music'') of
           Throws msg \<Rightarrow> Reply_error 500 ''Failed to search YouTube.'' (Some msg)
         | Returns results \<Rightarrow>
             Reply_ok (filter (\<lambda>item. truthy (item_id item) \<and> truthy (item_title item))
                         (map simplify_result results))))"

subsection \<open>GET /api/playlist\<close>

text \<open>A playlist as youtube-sr gives it; \<open>ytp_videos\<close> is \<open>None\<close> when it has no list of videos.\<close>

record yt_playlist =
  ytp_title :: js_value
  ytp_videos :: "yt_video list option"

record playlist_video =
  pv_id :: js_value
  pv_title :: js_value
  pv_duration :: js_value

record playlist_body =
  body_title :: js_value
  body_videos :: "playlist_video list"

text \<open>The test \<open>/^[a-zA-Z0-9_-]+$/\<close> on the playlist id.\<close>

definition valid_playlist_id :: "string \<Rightarrow> bool" where
  "valid_playlist_id x =
     (x \<noteq> [] \<and>
      list_all (\<lambda>c. c \<in> set ''abcdefghijklmnopqrstuvwxyzABCDEFGHIJKLMNOPQRSTUVWXYZ0123456789_-'') x)"

text \<open>\<open>s.includes(sub)\<close>.\<close>

fun js_includes :: "string \<Rightarrow> string \<Rightarrow> bool" where
  "js_includes [] sub = (sub = [])"
| "js_includes (c # cs) sub = (take (length sub) (c # cs) = sub \<or> js_includes cs sub)"

definition simplify_video :: "yt_video \<Rightarrow> playlist_video" where
  "simplify_video v =
     \<lparr>pv_id = yt_id v, pv_title = yt_title v, pv_duration = yt_durationFormatted v\<rparr>"

definition api_playlist ::
  "js_value \<Rightarrow> (string \<Rightarrow> yt_playlist option outcome) \<Rightarrow> playlist_body reply" where
  "api_playlist playlistId youtube_getPlaylist =
     (if \<not> truthy playlistId \<or> \<not> valid_playlist_id (to_text playlistId) then
        Reply_error 400 ''A valid YouTube playlist ID \"id\" is required.'' None
      else
        (case youtube_getPlaylist (to_text playlistId) of
           Throws msg \<Rightarrow>
             if js_includes msg ''not found'' \<or> js_includes msg ''Invalid Playlist ID'' then
               Reply_error 404 ''Playlist not found or invalid ID.'' None
             else Reply_error 500 ''Failed to retrieve playlist information.'' (Some msg)
         | Returns None \<Rightarrow> Reply_error 404 ''Playlist not found or is empty.'' None
         | Returns (Some pl) \<Rightarrow>
             (case ytp_videos pl of
                None \<Rightarrow> Reply_error 404 ''Playlist not found or is empty.'' None
              | Some [] \<Rightarrow> Reply_error 404 ''Playlist not found or is empty.'' None
              | Some vs \<Rightarrow>
                  Reply_ok
                    \<lparr>body_title = js_or (ytp_title pl) (Str ''Playlist''),
                     body_videos =
                       filter (\<lambda>v. truthy (pv_id v) \<and> truthy (pv_title v))
                         (map simplify_video vs)\<rparr>)))"

subsection \<open>GET /api/tts\<close>

text \<open>
  \<open>gtts\<close> stands for \<open>new gtts(text, 'en')\<close> and its \<open>stream()\<close>: the audio stream
  piped into the response, or the error the \<open>catch\<close> block answers with the status 500.
\<close>

definition api_tts :: "js_value \<Rightarrow> (string \<Rightarrow> 'a outcome) \<Rightarrow> 'a reply" where
  "api_tts text gtts =
     (if \<not> truthy text then
        Reply_error 400 ''Text query parameter \"text\" is required.'' None
      else if length (to_text text) > 200 then
        Reply_error 400 ''Text length exceeds maximum limit (200 characters).'' None
      else
        (case gtts (to_text text) of
           Throws msg \<Rightarrow> Reply_error 500 ''Failed to generate TTS audio.'' (Some msg)
         | Returns audio \<Rightarrow> Reply_ok audio))"

section \<open>Notions used by the properties\<close>

text \<open>
  A well-formed playlist state: the cursor is inside the list (so the list is not empty).
\<close>

definition playlist_inv :: "app_state \<Rightarrow> bool" where
  "playlist_inv s =
     (case currentPlaylist s of
        None \<Rightarrow> True
      | Some p \<Rightarrow> videos p \<noteq> [] \<and> currentIndex p < length (videos p))"

text \<open>A playlist whose cursor is inside the list and whose items all have an id.\<close>

definition playlist_ok :: "playlist \<Rightarrow> bool" where
  "playlist_ok p =
     (currentIndex p < length (videos p) \<and> list_all (\<lambda>v. truthy (video_id v)) (videos p))"

text \<open>The effects one event adds to the log.\<close>

definition new_effects :: "event \<Rightarrow> app_state \<Rightarrow> effect list" where
  "new_effects e s = drop (length (effects s)) (effects (step e s))"

text \<open>An effect that starts a channel: loading a source into it, or playing it.\<close>

fun activates :: "channel \<Rightarrow> effect \<Rightarrow> bool" where
  "activates ch (Channel_load c u) = (c = ch)"
| "activates ch (Channel_play c) = (c = ch)"
| "activates ch _ = False"

text \<open>
  One round of a failing item of a playlist: the primary channel signals an error, the
  retry timer fires, the request for the next item is answered and its announcement ends.
\<close>

fun error_round :: "media_error option \<times> js_value \<times> js_value \<times> play_data fetch_result \<Rightarrow> event list" where
  "error_round (err, videoId, ttl, r) =
     [Audio_error err, Timeout_fired, Play_response videoId ttl r, Tts_ended]"

section \<open>Properties of the client\<close>

subsection \<open>What each handler does to the playlist state\<close>

lemmas ui_defs = showLoading_def hideLoading_def showError_def hideError_def emit_def
  updatePlaylistUI_def

lemma playMainAudio_playlist [simp]: "currentPlaylist (playMainAudio s) = currentPlaylist s"
  by (simp add: playMainAudio_def Let_def ui_defs split: option.splits)

lemma playTTS_playlist [simp]: "currentPlaylist (playTTS text s) = currentPlaylist s"
  by (simp add: playTTS_def Let_def ui_defs)

lemma resume_catch_playlist [simp]:
  "currentPlaylist (fetchAndPrepareVideo_catch msg s) = currentPlaylist s"
  by (simp add: fetchAndPrepareVideo_catch_def Let_def ui_defs)

lemma resume_playlist [simp]:
  "currentPlaylist (fetchAndPrepareVideo_resume videoId ttl r s) = currentPlaylist s"
  by (simp add: fetchAndPrepareVideo_resume_def Let_def ui_defs split: fetch_result.splits option.splits)

lemma tts_playlist [simp]:
  "currentPlaylist (ttsPlayer_ended s) = currentPlaylist s"
  "currentPlaylist (ttsPlayer_error s) = currentPlaylist s"
  "currentPlaylist (ttsPlayer_play_catch s) = currentPlaylist s"
  by (simp_all add: ttsPlayer_ended_def ttsPlayer_error_def ttsPlayer_play_catch_def Let_def ui_defs)

lemma audio_playlist [simp]:
  "currentPlaylist (audioPlayer_error err s) = currentPlaylist s"
  "currentPlaylist (audioPlayer_play_catch name msg s) = currentPlaylist s"
  "currentPlaylist (audioPlayer_play_then m s) = currentPlaylist s"
  by (simp_all add: audioPlayer_error_def audioPlayer_play_catch_def audioPlayer_play_then_def
      Let_def ui_defs split: option.splits)

lemma playNext_currentPlaylist:
  assumes "currentPlaylist s = Some p" and "playlist_ok p"
  shows "currentPlaylist (playNextTrackInPlaylist s) =
           Some (p\<lparr>currentIndex := Suc (currentIndex p) mod length (videos p)\<rparr>)"
proof -
  from assms(2) have ne: "videos p \<noteq> []" and lt: "currentIndex p < length (videos p)"
    and ids: "\<And>i. i < length (videos p) \<Longrightarrow> truthy (video_id (videos p ! i))"
    by (auto simp: playlist_ok_def list_all_length)
  show ?thesis
  proof (cases "Suc (currentIndex p) < length (videos p)")
    case True
    then show ?thesis
      using assms(1) ne ids[OF True]
      by (simp add: playNextTrackInPlaylist_def Let_def js_index_def fetchAndPrepareVideo_def ui_defs)
  next
    case False
    with lt have eq: "Suc (currentIndex p) = length (videos p)" by simp
    have "truthy (video_id (videos p ! 0))" using ids ne by simp
    then show ?thesis
      using assms(1) ne eq
      by (simp add: playNextTrackInPlaylist_def Let_def js_index_def fetchAndPrepareVideo_def ui_defs)
  qed
qed

lemma playlist_ok_advance:
  "playlist_ok p \<Longrightarrow> playlist_ok (p\<lparr>currentIndex := i mod length (videos p)\<rparr>)"
  by (cases "videos p") (auto simp: playlist_ok_def)

lemma playNext_funpow:
  assumes "playlist_ok p"
  shows "currentPlaylist s = Some p \<Longrightarrow>
         currentPlaylist ((playNextTrackInPlaylist ^^ k) s) =
           Some (p\<lparr>currentIndex := (currentIndex p + k) mod length (videos p)\<rparr>)"
proof (induction k)
  case 0
  then show ?case using assms by (simp add: playlist_ok_def)
next
  case (Suc k)
  let ?q = "p\<lparr>currentIndex := (currentIndex p + k) mod length (videos p)\<rparr>"
  have "playlist_ok ?q" using assms by (rule playlist_ok_advance)
  from playNext_currentPlaylist[OF Suc.IH[OF Suc.prems] this]
  show ?case by (simp add: mod_Suc_eq)
qed

subsection \<open>The playlist cursor\<close>

text \<open>
  Claim C7. On a non-empty playlist of length \<open>n\<close> whose items all have an id and whose
  cursor is inside the list, one call of \<open>playNextTrackInPlaylist\<close> increments the index,
  and sets it to 0 when the incremented index would be past the last one; the playlist is
  otherwise unchanged and never ends: after \<open>k\<close> calls the index is the original one plus
  \<open>k\<close>, modulo \<open>n\<close>. So fewer than \<open>n\<close> calls (and at least one) leave the cursor on
  another index, and exactly \<open>n\<close> calls bring it back to the index it started from.
\<close>

theorem advance_wraparound:
  assumes "currentPlaylist s = Some p" and "playlist_ok p"
  shows "currentPlaylist (playNextTrackInPlaylist s) =
           Some (p\<lparr>currentIndex :=
                      (if currentIndex p + 1 \<ge> length (videos p) then 0
                       else currentIndex p + 1)\<rparr>)
       \<and> (\<forall>k. currentPlaylist ((playNextTrackInPlaylist ^^ k) s) =
                 Some (p\<lparr>currentIndex := (currentIndex p + k) mod length (videos p)\<rparr>))
       \<and> (\<forall>k. 0 < k \<and> k < length (videos p) \<longrightarrow>
                 currentPlaylist ((playNextTrackInPlaylist ^^ k) s) \<noteq> Some p)
       \<and> currentPlaylist ((playNextTrackInPlaylist ^^ length (videos p)) s) = Some p"
proof -
  from assms(2) have lt: "currentIndex p < length (videos p)"
    by (simp add: playlist_ok_def)
  have one: "Suc (currentIndex p) mod length (videos p) =
             (if currentIndex p + 1 \<ge> length (videos p) then 0 else currentIndex p + 1)"
    using lt by (auto simp: le_Suc_eq)
  have pow: "\<And>k. currentPlaylist ((playNextTrackInPlaylist ^^ k) s) =
                 Some (p\<lparr>currentIndex := (currentIndex p + k) mod length (videos p)\<rparr>)"
    using playNext_funpow[OF assms(2) assms(1)] .
  have other: "currentPlaylist ((playNextTrackInPlaylist ^^ k) s) \<noteq> Some p"
    if k: "0 < k" "k < length (videos p)" for k
  proof
    assume "currentPlaylist ((playNextTrackInPlaylist ^^ k) s) = Some p"
    with pow[of k] have "p\<lparr>currentIndex := (currentIndex p + k) mod length (videos p)\<rparr> = p"
      by simp
    then have "currentIndex (p\<lparr>currentIndex := (currentIndex p + k) mod length (videos p)\<rparr>)
               = currentIndex p"
      by simp
    then have eq: "(currentIndex p + k) mod length (videos p) = currentIndex p" by simp
    show False
    proof (cases "currentIndex p + k < length (videos p)")
      case True
      with eq k show False by simp
    next
      case False
      then have "(currentIndex p + k) mod length (videos p) =
                 currentIndex p + k - length (videos p)"
        using lt k by (simp add: mod_if)
      with eq False k show False by simp
    qed
  qed
  have restored: "currentPlaylist ((playNextTrackInPlaylist ^^ length (videos p)) s) = Some p"
    using pow[of "length (videos p)"] lt by simp
  from playNext_currentPlaylist[OF assms] one pow other restored show ?thesis by simp
qed

theorem advance_wraparound_witness:
  "playlist_ok
     \<lparr>pl_title = Str ''Chill'',
      videos = [\<lparr>video_id = Str ''a'', video_title = Str ''A''\<rparr>,
                \<lparr>video_id = Str ''b'', video_title = Str ''B''\<rparr>,
                \<lparr>video_id = Str ''c'', video_title = Str ''C''\<rparr>],
      currentIndex = 1\<rparr>
   \<and> currentPlaylist
       (playNextTrackInPlaylist
          (initial_state\<lparr>currentPlaylist :=
             Some \<lparr>pl_title = Str ''Chill'',
                   videos = [\<lparr>video_id = Str ''a'', video_title = Str ''A''\<rparr>,
                             \<lparr>video_id = Str ''b'', video_title = Str ''B''\<rparr>,
                             \<lparr>video_id = Str ''c'', video_title = Str ''C''\<rparr>],
                   currentIndex = 1\<rparr>\<rparr>))
     = Some \<lparr>pl_title = Str ''Chill'',
             videos = [\<lparr>video_id = Str ''a'', video_title = Str ''A''\<rparr>,
                       \<lparr>video_id = Str ''b'', video_title = Str ''B''\<rparr>,
                       \<lparr>video_id = Str ''c'', video_title = Str ''C''\<rparr>],
             currentIndex = 2\<rparr>
   \<and> currentPlaylist
       ((playNextTrackInPlaylist ^^ 2)
          (initial_state\<lparr>currentPlaylist :=
             Some \<lparr>pl_title = Str ''Chill'',
                   videos = [\<lparr>video_id = Str ''a'', video_title = Str ''A''\<rparr>,
                             \<lparr>video_id = Str ''b'', video_title = Str ''B''\<rparr>,
                             \<lparr>video_id = Str ''c'', video_title = Str ''C''\<rparr>],
                   currentIndex = 1\<rparr>\<rparr>))
     = Some \<lparr>pl_title = Str ''Chill'',
             videos = [\<lparr>video_id = Str ''a'', video_title = Str ''A''\<rparr>,
                       \<lparr>video_id = Str ''b'', video_title = Str ''B''\<rparr>,
                       \<lparr>video_id = Str ''c'', video_title = Str ''C''\<rparr>],
             currentIndex = 0\<rparr>
   \<and> currentPlaylist
       ((playNextTrackInPlaylist ^^ 3)
          (initial_state\<lparr>currentPlaylist :=
             Some \<lparr>pl_title = Str ''Chill'',
                   videos = [\<lparr>video_id = Str ''a'', video_title = Str ''A''\<rparr>,
                             \<lparr>video_id = Str ''b'', video_title = Str ''B''\<rparr>,
                             \<lparr>video_id = Str ''c'', video_title = Str ''C''\<rparr>],
                   currentIndex = 1\<rparr>\<rparr>))
     = Some \<lparr>pl_title = Str ''Chill'',
             videos = [\<lparr>video_id = Str ''a'', video_title = Str ''A''\<rparr>,
                       \<lparr>video_id = Str ''b'', video_title = Str ''B''\<rparr>,
                       \<lparr>video_id = Str ''c'', video_title = Str ''C''\<rparr>],
             currentIndex = 1\<rparr>"
proof -
  let ?p = "\<lparr>pl_title = Str ''Chill'',
      videos = [\<lparr>video_id = Str ''a'', video_title = Str ''A''\<rparr>,
                \<lparr>video_id = Str ''b'', video_title = Str ''B''\<rparr>,
                \<lparr>video_id = Str ''c'', video_title = Str ''C''\<rparr>],
      currentIndex = 1\<rparr>"
  let ?s = "initial_state\<lparr>currentPlaylist := Some ?p\<rparr>"
  have ok: "playlist_ok ?p" by (simp add: playlist_ok_def)
  have cur: "currentPlaylist ?s = Some ?p" by simp
  note T = advance_wraparound[OF cur ok]
  from T have one: "currentPlaylist (playNextTrackInPlaylist ?s) = Some (?p\<lparr>currentIndex := 2\<rparr>)"
    by simp
  from T have pow: "\<And>k. currentPlaylist ((playNextTrackInPlaylist ^^ k) ?s) =
                 Some (?p\<lparr>currentIndex := (currentIndex ?p + k) mod length (videos ?p)\<rparr>)"
    by blast
  from pow[of 2] have two: "currentPlaylist ((playNextTrackInPlaylist ^^ 2) ?s) =
                 Some (?p\<lparr>currentIndex := 0\<rparr>)"
    by simp
  from T have three: "currentPlaylist ((playNextTrackInPlaylist ^^ 3) ?s) = Some ?p"
    by simp
  from ok one two three show ?thesis by simp
qed

subsection \<open>The invariant of the playlist state\<close>

lemma playNext_inv: "playlist_inv s \<Longrightarrow> playlist_inv (playNextTrackInPlaylist s)"
  by (auto simp: playlist_inv_def playNextTrackInPlaylist_def Let_def js_index_def
      fetchAndPrepareVideo_def ui_defs split: option.splits)

lemma handleResultClick_inv: "playlist_inv s \<Longrightarrow> playlist_inv (handleResultClick item s)"
  by (auto simp: playlist_inv_def handleResultClick_def Let_def fetchPlaylist_def
      fetchAndPrepareVideo_def ui_defs split: option.splits)

lemma fetchPlaylist_resume_inv: "playlist_inv s \<Longrightarrow> playlist_inv (fetchPlaylist_resume r s)"
  by (auto simp: playlist_inv_def fetchPlaylist_resume_def fetchPlaylist_catch_def Let_def
      fetchAndPrepareVideo_def ui_defs split: option.splits fetch_result.splits list.splits)

lemma step_inv: "playlist_inv s \<Longrightarrow> playlist_inv (step e s)"
proof (cases e)
  case (Result_click item)
  then show "playlist_inv s \<Longrightarrow> ?thesis" by (simp add: handleResultClick_inv)
next
  case (Playlist_response r)
  then show "playlist_inv s \<Longrightarrow> ?thesis" by (simp add: fetchPlaylist_resume_inv)
next
  case Audio_ended
  then show "playlist_inv s \<Longrightarrow> ?thesis"
    by (auto simp: audioPlayer_ended_def playNext_inv) (simp add: playlist_inv_def)
next
  case Next_click
  then show "playlist_inv s \<Longrightarrow> ?thesis" by (simp add: playNext_inv)
next
  case Timeout_fired
  then show "playlist_inv s \<Longrightarrow> ?thesis" by (simp add: playNext_inv)
qed (simp_all add: playlist_inv_def)

lemma run_inv: "playlist_inv s \<Longrightarrow> playlist_inv (run es s)"
  by (induction es arbitrary: s) (simp_all add: step_inv)

lemma initial_inv: "playlist_inv initial_state"
  by (simp add: playlist_inv_def initial_state_def)

lemma fetchPlaylist_resume_empty:
  assumes "response_ok status" and "pd_videos d = None \<or> pd_videos d = Some []"
  shows "currentPlaylist (fetchPlaylist_resume (Response status d) s) = None
         \<and> \<not> errorHidden (fetchPlaylist_resume (Response status d) s)
         \<and> errorText (fetchPlaylist_resume (Response status d) s) =
             ''Failed to load playlist: Playlist is empty or contains no valid videos.''
         \<and> effects (fetchPlaylist_resume (Response status d) s) = effects s"
  using assms by (auto simp: fetchPlaylist_resume_def fetchPlaylist_catch_def Let_def ui_defs)

lemma fetchPlaylist_resume_construct:
  assumes "response_ok status" and "pd_videos d = Some vs" and "vs \<noteq> []"
  shows "currentPlaylist (fetchPlaylist_resume (Response status d) s) =
           Some \<lparr>pl_title = pd_title d, videos = vs, currentIndex = 0\<rparr>"
  using assms
  by (cases vs) (auto simp: fetchPlaylist_resume_def Let_def fetchAndPrepareVideo_def ui_defs)

text \<open>
  Claim C8. Whenever a playlist state is present its list of videos is not empty and
  \<open>0 \<le> currentIndex < length videos\<close>. This holds in the initial state, every event
  handler preserves it (selection clears the playlist, the next-track logic advances with
  wraparound or clears it), so it holds in every state reached from the initial one; a
  successful playlist answer with videos constructs the state at index 0, and an answer
  whose list of videos is absent or empty is rejected with an error and leaves no playlist
  state, without any further request.
\<close>

theorem playlist_state_invariant:
  "playlist_inv initial_state
   \<and> (\<forall>e s. playlist_inv s \<longrightarrow> playlist_inv (step e s))
   \<and> (\<forall>es. playlist_inv (run es initial_state))
   \<and> (\<forall>status d s vs. response_ok status \<and> pd_videos d = Some vs \<and> vs \<noteq> [] \<longrightarrow>
         currentPlaylist (fetchPlaylist_resume (Response status d) s) =
           Some \<lparr>pl_title = pd_title d, videos = vs, currentIndex = 0\<rparr>)
   \<and> (\<forall>status d s. response_ok status \<and> (pd_videos d = None \<or> pd_videos d = Some []) \<longrightarrow>
         currentPlaylist (fetchPlaylist_resume (Response status d) s) = None
         \<and> \<not> errorHidden (fetchPlaylist_resume (Response status d) s)
         \<and> errorText (fetchPlaylist_resume (Response status d) s) =
             ''Failed to load playlist: Playlist is empty or contains no valid videos.''
         \<and> effects (fetchPlaylist_resume (Response status d) s) = effects s)"
  using initial_inv step_inv run_inv[OF initial_inv] fetchPlaylist_resume_construct
    fetchPlaylist_resume_empty
  by blast

theorem playlist_state_invariant_witness:
  "playlist_inv
     (initial_state\<lparr>currentPlaylist :=
        Some \<lparr>pl_title = Str ''Chill'',
              videos = [\<lparr>video_id = Str ''a'', video_title = Str ''A''\<rparr>,
                        \<lparr>video_id = Str ''b'', video_title = Str ''B''\<rparr>],
              currentIndex = 1\<rparr>\<rparr>)
   \<and> playlist_inv
       (step Next_click
          (initial_state\<lparr>currentPlaylist :=
             Some \<lparr>pl_title = Str ''Chill'',
                   videos = [\<lparr>video_id = Str ''a'', video_title = Str ''A''\<rparr>,
                             \<lparr>video_id = Str ''b'', video_title = Str ''B''\<rparr>],
                   currentIndex = 1\<rparr>\<rparr>))
   \<and> response_ok 200
   \<and> currentPlaylist
        (fetchPlaylist_resume
           (Response 200 \<lparr>pd_error = Undefined, pd_title = Str ''Chill'', pd_videos = Some []\<rparr>)
           initial_state) = None
   \<and> currentPlaylist
        (fetchPlaylist_resume
           (Response 200 \<lparr>pd_error = Undefined, pd_title = Str ''Chill'',
              pd_videos = Some [\<lparr>video_id = Str ''a'', video_title = Str ''A''\<rparr>]\<rparr>)
           initial_state)
      = Some \<lparr>pl_title = Str ''Chill'',
              videos = [\<lparr>video_id = Str ''a'', video_title = Str ''A''\<rparr>], currentIndex = 0\<rparr>"
proof -
  let ?s = "initial_state\<lparr>currentPlaylist :=
        Some \<lparr>pl_title = Str ''Chill'',
              videos = [\<lparr>video_id = Str ''a'', video_title = Str ''A''\<rparr>,
                        \<lparr>video_id = Str ''b'', video_title = Str ''B''\<rparr>],
              currentIndex = 1\<rparr>\<rparr>"
  have inv: "playlist_inv ?s" by (simp add: playlist_inv_def)
  have ok: "response_ok 200" by (simp add: response_ok_def)
  note T = playlist_state_invariant
  from T inv have "playlist_inv (step Next_click ?s)" by blast
  moreover from T ok have "currentPlaylist
        (fetchPlaylist_resume
           (Response 200 \<lparr>pd_error = Undefined, pd_title = Str ''Chill'', pd_videos = Some []\<rparr>)
           initial_state) = None"
    by simp
  moreover
  from T have construct: "\<And>status d vs s. response_ok status \<and> pd_videos d = Some vs \<and> vs \<noteq> [] \<Longrightarrow>
         currentPlaylist (fetchPlaylist_resume (Response status d) s) =
           Some \<lparr>pl_title = pd_title d, videos = vs, currentIndex = 0\<rparr>"
    by blast
  from construct[of 200 "\<lparr>pd_error = Undefined, pd_title = Str ''Chill'',
              pd_videos = Some [\<lparr>video_id = Str ''a'', video_title = Str ''A''\<rparr>]\<rparr>"
      "[\<lparr>video_id = Str ''a'', video_title = Str ''A''\<rparr>]" initial_state] ok
  have "currentPlaylist
        (fetchPlaylist_resume
           (Response 200 \<lparr>pd_error = Undefined, pd_title = Str ''Chill'',
              pd_videos = Some [\<lparr>video_id = Str ''a'', video_title = Str ''A''\<rparr>]\<rparr>)
           initial_state)
      = Some \<lparr>pl_title = Str ''Chill'',
              videos = [\<lparr>video_id = Str ''a'', video_title = Str ''A''\<rparr>], currentIndex = 0\<rparr>"
    by simp
  ultimately show ?thesis using inv ok by blast
qed

subsection \<open>What each handler adds to the log of effects\<close>

lemma effects_playMainAudio:
  "effects (playMainAudio s) =
     effects s @ (case nextAudioInfo s of None \<Rightarrow> []
                  | Some t \<Rightarrow> [Channel_load Primary (Stream_url (audioUrl t)), Channel_play Primary])"
  by (simp add: playMainAudio_def Let_def ui_defs split: option.splits)

lemma effects_playTTS:
  "text \<noteq> [] \<Longrightarrow>
   effects (playTTS text s) =
     effects s @ [Channel_pause Primary, Channel_load Announcement (Tts_url text),
                  Channel_play Announcement]"
  by (simp add: playTTS_def Let_def ui_defs)

lemma effects_resume:
  "effects (fetchAndPrepareVideo_resume videoId ttl r s) =
     effects s @
       (case r of
          Fetch_failed msg \<Rightarrow> []
        | Response status d \<Rightarrow>
            if response_ok status then
              [Channel_pause Primary,
               Channel_load Announcement
                 (Tts_url (''Changing now to '' @ to_text (js_or (data_title d) ttl))),
               Channel_play Announcement]
            else [])"
  by (simp add: fetchAndPrepareVideo_resume_def fetchAndPrepareVideo_catch_def Let_def
      effects_playTTS ui_defs split: fetch_result.splits option.splits)

lemma effects_playNext:
  "effects (playNextTrackInPlaylist s) =
     effects s @
       (case currentPlaylist s of
          None \<Rightarrow> []
        | Some p \<Rightarrow>
            if videos p = [] then []
            else
              (let i = (if Suc (currentIndex p) \<ge> length (videos p) then 0
                        else Suc (currentIndex p))
               in if truthy (video_id (videos p ! i)) then [Fetch_play (video_id (videos p ! i))]
                  else []))"
  by (auto simp: playNextTrackInPlaylist_def Let_def js_index_def fetchAndPrepareVideo_def
      ui_defs split: option.splits)

lemma effects_handleResultClick:
  "effects (handleResultClick item s) =
     effects s @
       (case item of
          None \<Rightarrow> []
        | Some d \<Rightarrow>
            if \<not> truthy (ds_id d) then []
            else if ds_type d = Str ''playlist'' then [Fetch_playlist (ds_id d)]
            else [Fetch_play (ds_id d)])"
  by (simp add: handleResultClick_def Let_def fetchPlaylist_def fetchAndPrepareVideo_def
      ui_defs split: option.splits)

lemma effects_fetchPlaylist_resume:
  "effects (fetchPlaylist_resume r s) =
     effects s @
       (case r of
          Fetch_failed msg \<Rightarrow> []
        | Response status d \<Rightarrow>
            if response_ok status then
              (case pd_videos d of Some (v # vs) \<Rightarrow> [Fetch_play (video_id v)] | _ \<Rightarrow> [])
            else [])"
  by (simp add: fetchPlaylist_resume_def fetchPlaylist_catch_def Let_def fetchAndPrepareVideo_def
      ui_defs split: fetch_result.splits option.splits list.splits)

lemma effects_audio:
  "effects (audioPlayer_error err s) =
     effects s @ (if currentPlaylist s \<noteq> None then [Set_timeout_next] else [])"
  "effects (audioPlayer_play_catch name msg s) = effects s"
  "effects (audioPlayer_play_then m s) = effects s"
  by (simp_all add: audioPlayer_error_def audioPlayer_play_catch_def audioPlayer_play_then_def
      Let_def ui_defs split: option.splits)

lemma effects_tts:
  "effects (ttsPlayer_ended s) =
     effects s @ (case nextAudioInfo s of None \<Rightarrow> []
                  | Some t \<Rightarrow> [Channel_load Primary (Stream_url (audioUrl t)), Channel_play Primary])"
  "effects (ttsPlayer_error s) =
     effects s @ (case nextAudioInfo s of None \<Rightarrow> []
                  | Some t \<Rightarrow> [Channel_load Primary (Stream_url (audioUrl t)), Channel_play Primary])"
  "effects (ttsPlayer_play_catch s) =
     effects s @ (case nextAudioInfo s of None \<Rightarrow> []
                  | Some t \<Rightarrow> [Channel_load Primary (Stream_url (audioUrl t)), Channel_play Primary])"
  by (simp_all add: ttsPlayer_ended_def ttsPlayer_error_def ttsPlayer_play_catch_def
      effects_playMainAudio Let_def ui_defs)

text \<open>The effects each event adds.\<close>

lemma new_effects_simps:
  "new_effects (Result_click item) s =
     (case item of
        None \<Rightarrow> []
      | Some d \<Rightarrow>
          if \<not> truthy (ds_id d) then []
          else if ds_type d = Str ''playlist'' then [Fetch_playlist (ds_id d)]
          else [Fetch_play (ds_id d)])"
  "new_effects (Playlist_response pr) s =
     (case pr of
        Fetch_failed msg \<Rightarrow> []
      | Response status pd \<Rightarrow>
          if response_ok status then
            (case pd_videos pd of Some (v # vs) \<Rightarrow> [Fetch_play (video_id v)] | _ \<Rightarrow> [])
          else [])"
  "new_effects (Play_response videoId ttl r) s =
     (case r of
        Fetch_failed msg \<Rightarrow> []
      | Response status d \<Rightarrow>
          if response_ok status then
            [Channel_pause Primary,
             Channel_load Announcement
               (Tts_url (''Changing now to '' @ to_text (js_or (data_title d) ttl))),
             Channel_play Announcement]
          else [])"
  "new_effects Tts_ended s =
     (case nextAudioInfo s of None \<Rightarrow> []
      | Some t \<Rightarrow> [Channel_load Primary (Stream_url (audioUrl t)), Channel_play Primary])"
  "new_effects Tts_error s =
     (case nextAudioInfo s of None \<Rightarrow> []
      | Some t \<Rightarrow> [Channel_load Primary (Stream_url (audioUrl t)), Channel_play Primary])"
  "new_effects Tts_play_rejected s =
     (case nextAudioInfo s of None \<Rightarrow> []
      | Some t \<Rightarrow> [Channel_load Primary (Stream_url (audioUrl t)), Channel_play Primary])"
  "new_effects (Audio_play_started m) s = []"
  "new_effects (Audio_play_rejected name msg) s = []"
  "new_effects (Audio_error err) s = (if currentPlaylist s \<noteq> None then [Set_timeout_next] else [])"
  by (simp_all add: new_effects_def effects_handleResultClick effects_fetchPlaylist_resume
      effects_resume effects_tts effects_audio)

lemma new_effects_next:
  "new_effects Next_click s =
       (case currentPlaylist s of
          None \<Rightarrow> []
        | Some p \<Rightarrow>
            if videos p = [] then []
            else
              (let i = (if Suc (currentIndex p) \<ge> length (videos p) then 0
                        else Suc (currentIndex p))
               in if truthy (video_id (videos p ! i)) then [Fetch_play (video_id (videos p ! i))]
                  else []))"
  "new_effects Timeout_fired s = new_effects Next_click s"
  "new_effects Audio_ended s = new_effects Next_click s"
  by (auto simp: new_effects_def effects_playNext audioPlayer_ended_def)

lemma effects_step: "effects (step e s) = effects s @ new_effects e s"
  by (cases e) (simp_all add: new_effects_def effects_handleResultClick effects_fetchPlaylist_resume
      effects_resume effects_tts effects_audio effects_playNext audioPlayer_ended_def)


lemma new_effects_Playlist_response:
  "new_effects (Playlist_response r) s = [] \<or>
   (\<exists>v. new_effects (Playlist_response r) s = [Fetch_play v])"
  by (simp add: new_effects_simps split: fetch_result.split option.split list.split)

subsection \<open>The two channels\<close>

text \<open>The definitions a concrete run is evaluated with.\<close>

lemmas handler_defs = handleResultClick_def fetchPlaylist_def fetchPlaylist_resume_def
  fetchPlaylist_catch_def fetchAndPrepareVideo_def fetchAndPrepareVideo_resume_def
  fetchAndPrepareVideo_catch_def playTTS_def playMainAudio_def playNextTrackInPlaylist_def
  audioPlayer_ended_def audioPlayer_error_def audioPlayer_play_catch_def
  audioPlayer_play_then_def ttsPlayer_ended_def ttsPlayer_error_def ttsPlayer_play_catch_def
  js_index_def js_or_def response_ok_def initial_state_def Let_def ui_defs

text \<open>
  Claim C4. For every staged track, when the announcement fails (the announcement channel
  signals \<open>error\<close>, or the promise of its \<open>play()\<close> is rejected), the handler loads the
  staged track into the primary channel and plays it, and clears the staged track, exactly
  as the \<open>ended\<close> handler does: the rejected \<open>play()\<close> leaves the same state as \<open>ended\<close>,
  and \<open>error\<close> the same state but for the message it shows. No failure of the announcement
  blocks the primary playback.
\<close>

theorem announcement_failure_not_fatal:
  assumes "nextAudioInfo s = Some t"
  shows "new_effects Tts_error s =
           [Channel_load Primary (Stream_url (audioUrl t)), Channel_play Primary]
       \<and> new_effects Tts_play_rejected s =
           [Channel_load Primary (Stream_url (audioUrl t)), Channel_play Primary]
       \<and> new_effects Tts_ended s =
           [Channel_load Primary (Stream_url (audioUrl t)), Channel_play Primary]
       \<and> audioPlayer_src (step Tts_error s) = Some (Stream_url (audioUrl t))
       \<and> audioPlayer_src (step Tts_play_rejected s) = Some (Stream_url (audioUrl t))
       \<and> nextAudioInfo (step Tts_error s) = None
       \<and> nextAudioInfo (step Tts_play_rejected s) = None
       \<and> step Tts_play_rejected s = step Tts_ended s
       \<and> step Tts_error s =
           (step Tts_ended s)
             \<lparr>loadingHidden := True,
              errorText := ''TTS announcement failed. Playing track directly.'',
              errorHidden := False\<rparr>"
proof -
  have "step Tts_error s =
           (step Tts_ended s)
             \<lparr>loadingHidden := True,
              errorText := ''TTS announcement failed. Playing track directly.'',
              errorHidden := False\<rparr>"
    using assms
    by (simp add: ttsPlayer_error_def ttsPlayer_ended_def playMainAudio_def Let_def ui_defs)
  moreover have "audioPlayer_src (step Tts_error s) = Some (Stream_url (audioUrl t))"
    "audioPlayer_src (step Tts_play_rejected s) = Some (Stream_url (audioUrl t))"
    "nextAudioInfo (step Tts_error s) = None"
    "nextAudioInfo (step Tts_play_rejected s) = None"
    using assms
    by (simp_all add: ttsPlayer_error_def ttsPlayer_play_catch_def playMainAudio_def Let_def ui_defs)
  moreover have "step Tts_play_rejected s = step Tts_ended s"
    by (simp add: ttsPlayer_play_catch_def ttsPlayer_ended_def)
  ultimately show ?thesis
    using assms by (simp add: new_effects_simps)
qed

theorem announcement_failure_not_fatal_witness:
  "nextAudioInfo
     (run [Result_click (Some \<lparr>ds_id = Str ''a'', ds_title = Str ''A'', ds_type = Str ''video''\<rparr>),
           Play_response (Str ''a'') (Str ''A'')
             (Response 200 \<lparr>data_error = Undefined, data_audioUrl = Str ''urlA'',
                             data_title = Str ''Track A''\<rparr>)]
        initial_state)
     = Some \<lparr>audioUrl = Str ''urlA'', title = Str ''Track A''\<rparr>
   \<and> new_effects Tts_error
       (run [Result_click (Some \<lparr>ds_id = Str ''a'', ds_title = Str ''A'', ds_type = Str ''video''\<rparr>),
             Play_response (Str ''a'') (Str ''A'')
               (Response 200 \<lparr>data_error = Undefined, data_audioUrl = Str ''urlA'',
                               data_title = Str ''Track A''\<rparr>)]
          initial_state)
     = [Channel_load Primary (Stream_url (Str ''urlA'')), Channel_play Primary]"
proof -
  let ?s = "run [Result_click (Some \<lparr>ds_id = Str ''a'', ds_title = Str ''A'', ds_type = Str ''video''\<rparr>),
           Play_response (Str ''a'') (Str ''A'')
             (Response 200 \<lparr>data_error = Undefined, data_audioUrl = Str ''urlA'',
                             data_title = Str ''Track A''\<rparr>)]
        initial_state"
  have staged: "nextAudioInfo ?s = Some \<lparr>audioUrl = Str ''urlA'', title = Str ''Track A''\<rparr>"
    by (simp add: handler_defs)
  from announcement_failure_not_fatal[OF staged] staged show ?thesis by simp
qed

text \<open>
  Claim C6, as amended. The primary channel is loaded and played only by the handler of a
  terminal signal of the announcement channel (\<open>ended\<close>, \<open>error\<close>, or the rejection of
  \<open>play()\<close>), with the track staged at that moment; whenever the announcement channel is
  started, the primary channel has been paused just before, in the same handler. No handler
  pauses the announcement channel: before the primary channel starts, the code relies on
  the terminal signal alone.
\<close>

theorem channel_ordering:
  "((\<exists>x\<in>set (new_effects e s). activates Primary x) \<longrightarrow>
      (e = Tts_ended \<or> e = Tts_error \<or> e = Tts_play_rejected) \<and>
      (\<exists>t. nextAudioInfo s = Some t \<and>
           new_effects e s =
             [Channel_load Primary (Stream_url (audioUrl t)), Channel_play Primary]))
   \<and> ((\<exists>x\<in>set (new_effects e s). activates Announcement x) \<longrightarrow>
      (\<exists>text. new_effects e s =
         [Channel_pause Primary, Channel_load Announcement (Tts_url text),
          Channel_play Announcement]))
   \<and> Channel_pause Announcement \<notin> set (new_effects e s)"
proof (cases e)
  case (Result_click item)
  then show ?thesis by (cases item) (auto simp: new_effects_simps)
next
  case (Playlist_response r)
  with new_effects_Playlist_response[of r s] show ?thesis by auto
next
  case (Play_response videoId ttl r)
  then show ?thesis by (cases r) (auto simp: new_effects_simps)
next
  case Tts_ended
  then show ?thesis by (cases "nextAudioInfo s") (auto simp: new_effects_simps)
next
  case Tts_error
  then show ?thesis by (cases "nextAudioInfo s") (auto simp: new_effects_simps)
next
  case Tts_play_rejected
  then show ?thesis by (cases "nextAudioInfo s") (auto simp: new_effects_simps)
next
  case Audio_ended
  then show ?thesis by (cases "currentPlaylist s") (auto simp: new_effects_next Let_def)
next
  case Next_click
  then show ?thesis by (cases "currentPlaylist s") (auto simp: new_effects_next Let_def)
next
  case Timeout_fired
  then show ?thesis by (cases "currentPlaylist s") (auto simp: new_effects_next Let_def)
qed (simp_all add: new_effects_simps)

theorem channel_ordering_witness:
  "(\<exists>x\<in>set (new_effects Tts_ended
       (run [Result_click (Some \<lparr>ds_id = Str ''a'', ds_title = Str ''A'', ds_type = Str ''video''\<rparr>),
             Play_response (Str ''a'') (Str ''A'')
               (Response 200 \<lparr>data_error = Undefined, data_audioUrl = Str ''urlA'',
                               data_title = Str ''Track A''\<rparr>)]
          initial_state)). activates Primary x)
   \<and> new_effects Tts_ended
       (run [Result_click (Some \<lparr>ds_id = Str ''a'', ds_title = Str ''A'', ds_type = Str ''video''\<rparr>),
             Play_response (Str ''a'') (Str ''A'')
               (Response 200 \<lparr>data_error = Undefined, data_audioUrl = Str ''urlA'',
                               data_title = Str ''Track A''\<rparr>)]
          initial_state)
     = [Channel_load Primary (Stream_url (Str ''urlA'')), Channel_play Primary]
   \<and> (\<exists>x\<in>set (new_effects
         (Play_response (Str ''a'') (Str ''A'')
            (Response 200 \<lparr>data_error = Undefined, data_audioUrl = Str ''urlA'',
                            data_title = Str ''Track A''\<rparr>))
         (run [Result_click (Some \<lparr>ds_id = Str ''a'', ds_title = Str ''A'', ds_type = Str ''video''\<rparr>)]
            initial_state)). activates Announcement x)
   \<and> new_effects
         (Play_response (Str ''a'') (Str ''A'')
            (Response 200 \<lparr>data_error = Undefined, data_audioUrl = Str ''urlA'',
                            data_title = Str ''Track A''\<rparr>))
         (run [Result_click (Some \<lparr>ds_id = Str ''a'', ds_title = Str ''A'', ds_type = Str ''video''\<rparr>)]
            initial_state)
     = [Channel_pause Primary, Channel_load Announcement (Tts_url ''Changing now to Track A''),
        Channel_play Announcement]"
proof -
  let ?r = "Response 200 \<lparr>data_error = Undefined, data_audioUrl = Str ''urlA'',
                            data_title = Str ''Track A''\<rparr>"
  let ?s1 = "run [Result_click (Some \<lparr>ds_id = Str ''a'', ds_title = Str ''A'', ds_type = Str ''video''\<rparr>)]
            initial_state"
  let ?s2 = "run [Result_click (Some \<lparr>ds_id = Str ''a'', ds_title = Str ''A'', ds_type = Str ''video''\<rparr>),
             Play_response (Str ''a'') (Str ''A'') ?r] initial_state"
  have staged: "nextAudioInfo ?s2 = Some \<lparr>audioUrl = Str ''urlA'', title = Str ''Track A''\<rparr>"
    by (simp add: handler_defs)
  have p: "\<exists>x\<in>set (new_effects Tts_ended ?s2). activates Primary x"
    using staged by (simp add: new_effects_simps del: run.simps)
  have a: "\<exists>x\<in>set (new_effects (Play_response (Str ''a'') (Str ''A'') ?r) ?s1).
             activates Announcement x"
    by (simp add: new_effects_simps response_ok_def del: run.simps)
  from channel_ordering[of Tts_ended ?s2] p staged
  have "new_effects Tts_ended ?s2 =
          [Channel_load Primary (Stream_url (Str ''urlA'')), Channel_play Primary]"
    by (simp del: run.simps)
  moreover
  from channel_ordering[of "Play_response (Str ''a'') (Str ''A'') ?r" ?s1] a
  obtain w where "new_effects (Play_response (Str ''a'') (Str ''A'') ?r) ?s1 =
       [Channel_pause Primary, Channel_load Announcement (Tts_url w), Channel_play Announcement]"
    by blast
  then have "new_effects (Play_response (Str ''a'') (Str ''A'') ?r) ?s1
     = [Channel_pause Primary, Channel_load Announcement (Tts_url ''Changing now to Track A''),
        Channel_play Announcement]"
    by (simp add: new_effects_simps response_ok_def js_or_def del: run.simps)
  ultimately show ?thesis using p a by blast
qed

text \<open>
  Claim C6 as stated fails: when the announcement of a selected track has ended, the
  primary channel is loaded and played without any pause of the announcement channel
  before it.
\<close>

theorem channel_ordering_counterexample:
  "effects
     (run [Result_click (Some \<lparr>ds_id = Str ''a'', ds_title = Str ''A'', ds_type = Str ''video''\<rparr>),
           Play_response (Str ''a'') (Str ''A'')
             (Response 200 \<lparr>data_error = Undefined, data_audioUrl = Str ''urlA'',
                             data_title = Str ''Track A''\<rparr>),
           Tts_ended]
        initial_state)
   = [Fetch_play (Str ''a''),
      Channel_pause Primary,
      Channel_load Announcement (Tts_url ''Changing now to Track A''),
      Channel_play Announcement,
      Channel_load Primary (Stream_url (Str ''urlA'')),
      Channel_play Primary]"
  by (simp add: handler_defs)

subsection \<open>Manual advance\<close>

lemma run_append: "run (xs @ ys) s = run ys (run xs s)"
  by (induction xs arbitrary: s) simp_all

lemma playNext_changes:
  assumes "currentPlaylist s = Some p" and "videos p \<noteq> []"
  shows "playNextTrackInPlaylist s \<noteq> s"
proof
  assume eq: "playNextTrackInPlaylist s = s"
  let ?i = "if Suc (currentIndex p) \<ge> length (videos p) then 0 else Suc (currentIndex p)"
  have i: "?i < length (videos p)" using assms(2) by simp
  show False
  proof (cases "truthy (video_id (videos p ! ?i))")
    case True
    have "effects (playNextTrackInPlaylist s) = effects s @ [Fetch_play (video_id (videos p ! ?i))]"
      using assms True by (simp add: effects_playNext Let_def)
    with eq show False by simp
  next
    case False
    have "currentPlaylist (playNextTrackInPlaylist s) = None"
      using assms False i
      by (cases "Suc (currentIndex p) \<ge> length (videos p)")
        (simp_all add: playNextTrackInPlaylist_def Let_def js_index_def ui_defs)
    with eq assms(1) show False by simp
  qed
qed

lemma playNext_src:
  "audioPlayer_src (playNextTrackInPlaylist s) = audioPlayer_src s"
  "ttsPlayer_src (playNextTrackInPlaylist s) = ttsPlayer_src s"
  by (simp_all add: playNextTrackInPlaylist_def Let_def js_index_def fetchAndPrepareVideo_def
      ui_defs split: option.splits)

lemma new_effects_next_ok:
  assumes "currentPlaylist s = Some p" and "playlist_ok p"
  shows "new_effects Next_click s =
           [Fetch_play (video_id (videos p ! (Suc (currentIndex p) mod length (videos p))))]"
proof -
  from assms(2) have ne: "videos p \<noteq> []" and lt: "currentIndex p < length (videos p)"
    and ids: "\<And>i. i < length (videos p) \<Longrightarrow> truthy (video_id (videos p ! i))"
    by (auto simp: playlist_ok_def list_all_length)
  have m: "Suc (currentIndex p) mod length (videos p) =
           (if Suc (currentIndex p) \<ge> length (videos p) then 0 else Suc (currentIndex p))"
    using lt by (auto simp: le_Suc_eq)
  have "Suc (currentIndex p) mod length (videos p) < length (videos p)" using ne by simp
  from ids[OF this] show ?thesis
    using assms(1) ne m by (simp add: new_effects_next Let_def)
qed

text \<open>
  Claim C5, as amended. A click on the next button is honoured if and only if a playlist
  is active: without one the handler changes nothing, with one it changes the state. When
  honoured it pauses neither channel and leaves the source of both untouched; on a
  well-formed playlist it advances the cursor with wraparound and requests the next item.
  The primary channel is paused later, by \<open>playTTS\<close>, when the answer to that request
  has arrived and the announcement starts.
\<close>

theorem next_request:
  assumes "playlist_inv s"
  shows "(step Next_click s = s \<longleftrightarrow> currentPlaylist s = None)
       \<and> (\<forall>ch. Channel_pause ch \<notin> set (new_effects Next_click s))
       \<and> audioPlayer_src (step Next_click s) = audioPlayer_src s
       \<and> ttsPlayer_src (step Next_click s) = ttsPlayer_src s
       \<and> (\<forall>p. currentPlaylist s = Some p \<and> playlist_ok p \<longrightarrow>
             currentPlaylist (step Next_click s) =
               Some (p\<lparr>currentIndex := Suc (currentIndex p) mod length (videos p)\<rparr>)
             \<and> new_effects Next_click s =
                 [Fetch_play (video_id (videos p ! (Suc (currentIndex p) mod length (videos p))))])
       \<and> (\<forall>videoId ttl status d s'. response_ok status \<longrightarrow>
             new_effects (Play_response videoId ttl (Response status d)) s' =
               [Channel_pause Primary,
                Channel_load Announcement
                  (Tts_url (''Changing now to '' @ to_text (js_or (data_title d) ttl))),
                Channel_play Announcement])"
proof -
  have a: "step Next_click s = s \<longleftrightarrow> currentPlaylist s = None"
  proof (cases "currentPlaylist s")
    case None
    then show ?thesis by (simp add: playNextTrackInPlaylist_def)
  next
    case (Some p)
    with assms have "videos p \<noteq> []" by (simp add: playlist_inv_def)
    from playNext_changes[OF Some this] Some show ?thesis by simp
  qed
  have b: "\<forall>ch. Channel_pause ch \<notin> set (new_effects Next_click s)"
    by (cases "currentPlaylist s") (auto simp: new_effects_next Let_def)
  show ?thesis
    using a b playNext_src[of s] playNext_currentPlaylist new_effects_next_ok
    by (simp add: new_effects_simps)
qed

theorem next_request_witness:
  "playlist_inv
     (initial_state\<lparr>currentPlaylist :=
        Some \<lparr>pl_title = Str ''Chill'',
              videos = [\<lparr>video_id = Str ''a'', video_title = Str ''A''\<rparr>,
                        \<lparr>video_id = Str ''b'', video_title = Str ''B''\<rparr>],
              currentIndex = 1\<rparr>\<rparr>)
   \<and> currentPlaylist
       (step Next_click
          (initial_state\<lparr>currentPlaylist :=
             Some \<lparr>pl_title = Str ''Chill'',
                   videos = [\<lparr>video_id = Str ''a'', video_title = Str ''A''\<rparr>,
                             \<lparr>video_id = Str ''b'', video_title = Str ''B''\<rparr>],
                   currentIndex = 1\<rparr>\<rparr>))
     = Some \<lparr>pl_title = Str ''Chill'',
             videos = [\<lparr>video_id = Str ''a'', video_title = Str ''A''\<rparr>,
                       \<lparr>video_id = Str ''b'', video_title = Str ''B''\<rparr>],
             currentIndex = 0\<rparr>
   \<and> new_effects Next_click
       (initial_state\<lparr>currentPlaylist :=
          Some \<lparr>pl_title = Str ''Chill'',
                videos = [\<lparr>video_id = Str ''a'', video_title = Str ''A''\<rparr>,
                          \<lparr>video_id = Str ''b'', video_title = Str ''B''\<rparr>],
                currentIndex = 1\<rparr>\<rparr>)
     = [Fetch_play (Str ''a'')]
   \<and> playlist_inv initial_state
   \<and> step Next_click initial_state = initial_state"
proof -
  let ?p = "\<lparr>pl_title = Str ''Chill'',
              videos = [\<lparr>video_id = Str ''a'', video_title = Str ''A''\<rparr>,
                        \<lparr>video_id = Str ''b'', video_title = Str ''B''\<rparr>],
              currentIndex = 1\<rparr>"
  let ?s = "initial_state\<lparr>currentPlaylist := Some ?p\<rparr>"
  have inv: "playlist_inv ?s" by (simp add: playlist_inv_def)
  have inv0: "playlist_inv initial_state" by (simp add: playlist_inv_def initial_state_def)
  have ok: "currentPlaylist ?s = Some ?p \<and> playlist_ok ?p" by (simp add: playlist_ok_def)
  from next_request[OF inv] ok
  have "currentPlaylist (step Next_click ?s) =
          Some (?p\<lparr>currentIndex := Suc (currentIndex ?p) mod length (videos ?p)\<rparr>)
        \<and> new_effects Next_click ?s =
            [Fetch_play (video_id (videos ?p ! (Suc (currentIndex ?p) mod length (videos ?p))))]"
    by blast
  moreover from next_request[OF inv0] have "step Next_click initial_state = initial_state"
    by (simp add: initial_state_def)
  ultimately show ?thesis using inv inv0 by simp
qed

text \<open>
  Claim C5 as stated fails: with the first track of a playlist playing on the primary
  channel, a click on the next button only requests the second item; it pauses no channel.
\<close>

theorem next_request_counterexample:
  "new_effects Next_click
     (run [Result_click (Some \<lparr>ds_id = Str ''PL1'', ds_title = Str ''Chill'',
                               ds_type = Str ''playlist''\<rparr>),
           Playlist_response
             (Response 200
                \<lparr>pd_error = Undefined, pd_title = Str ''Chill'',
                 pd_videos = Some [\<lparr>video_id = Str ''a'', video_title = Str ''A''\<rparr>,
                                   \<lparr>video_id = Str ''b'', video_title = Str ''B''\<rparr>]\<rparr>),
           Play_response (Str ''a'') (Str ''A'')
             (Response 200 \<lparr>data_error = Undefined, data_audioUrl = Str ''urlA'',
                             data_title = Str ''Track A''\<rparr>),
           Tts_ended]
        initial_state)
   = [Fetch_play (Str ''b'')]"
  by (simp add: new_effects_def handler_defs)


subsection \<open>Selections whose answers cross\<close>

lemma resume_stages:
  "response_ok status \<Longrightarrow>
   nextAudioInfo (fetchAndPrepareVideo_resume videoId ttl (Response status d) s) =
     Some \<lparr>audioUrl = data_audioUrl d, title = js_or (data_title d) ttl\<rparr>"
  by (simp add: fetchAndPrepareVideo_resume_def playTTS_def Let_def ui_defs split: option.split)

lemma ttsPlayer_ended_plays:
  "nextAudioInfo s = Some t \<Longrightarrow>
   audioPlayer_src (ttsPlayer_ended s) = Some (Stream_url (audioUrl t))"
  by (simp add: ttsPlayer_ended_def playMainAudio_def Let_def ui_defs)

text \<open>
  Claim C1, as amended. There is no selection token: every successful answer of the
  resolve call stages its own resolution, whether or not a later selection has superseded
  the selection it belongs to. When A is selected, then B before the answer for A has
  arrived, the track staged at the end, and played once the announcement has ended, is the
  resolution of whichever answer arrives last: that of B when the answer for B arrives
  after the answer for A, that of A when the answer for A arrives after the answer for B.
\<close>

theorem last_response_wins:
  assumes "response_ok statusA" and "response_ok statusB"
  shows "nextAudioInfo
           (run [Result_click (Some A), Result_click (Some B),
                 Play_response (ds_id A) (ds_title A) (Response statusA dA),
                 Play_response (ds_id B) (ds_title B) (Response statusB dB)] s)
           = Some \<lparr>audioUrl = data_audioUrl dB, title = js_or (data_title dB) (ds_title B)\<rparr>
       \<and> audioPlayer_src
           (run [Result_click (Some A), Result_click (Some B),
                 Play_response (ds_id A) (ds_title A) (Response statusA dA),
                 Play_response (ds_id B) (ds_title B) (Response statusB dB),
                 Tts_ended] s)
           = Some (Stream_url (data_audioUrl dB))
       \<and> nextAudioInfo
           (run [Result_click (Some A), Result_click (Some B),
                 Play_response (ds_id B) (ds_title B) (Response statusB dB),
                 Play_response (ds_id A) (ds_title A) (Response statusA dA)] s)
           = Some \<lparr>audioUrl = data_audioUrl dA, title = js_or (data_title dA) (ds_title A)\<rparr>
       \<and> audioPlayer_src
           (run [Result_click (Some A), Result_click (Some B),
                 Play_response (ds_id B) (ds_title B) (Response statusB dB),
                 Play_response (ds_id A) (ds_title A) (Response statusA dA),
                 Tts_ended] s)
           = Some (Stream_url (data_audioUrl dA))"
  using assms by (simp add: resume_stages ttsPlayer_ended_plays)

theorem last_response_wins_witness:
  "response_ok 200
   \<and> nextAudioInfo
       (run [Result_click (Some \<lparr>ds_id = Str ''a'', ds_title = Str ''A'', ds_type = Str ''video''\<rparr>),
             Result_click (Some \<lparr>ds_id = Str ''b'', ds_title = Str ''B'', ds_type = Str ''video''\<rparr>),
             Play_response (Str ''a'') (Str ''A'')
               (Response 200 \<lparr>data_error = Undefined, data_audioUrl = Str ''urlA'',
                               data_title = Str ''Track A''\<rparr>),
             Play_response (Str ''b'') (Str ''B'')
               (Response 200 \<lparr>data_error = Undefined, data_audioUrl = Str ''urlB'',
                               data_title = Str ''Track B''\<rparr>)]
          initial_state)
     = Some \<lparr>audioUrl = Str ''urlB'', title = Str ''Track B''\<rparr>"
proof -
  have ok: "response_ok 200" by (simp add: response_ok_def)
  from last_response_wins[OF ok ok,
      of "\<lparr>ds_id = Str ''a'', ds_title = Str ''A'', ds_type = Str ''video''\<rparr>"
         "\<lparr>ds_id = Str ''b'', ds_title = Str ''B'', ds_type = Str ''video''\<rparr>"
         "\<lparr>data_error = Undefined, data_audioUrl = Str ''urlA'', data_title = Str ''Track A''\<rparr>"
         "\<lparr>data_error = Undefined, data_audioUrl = Str ''urlB'', data_title = Str ''Track B''\<rparr>"
         initial_state]
  have "nextAudioInfo
       (run [Result_click (Some \<lparr>ds_id = Str ''a'', ds_title = Str ''A'', ds_type = Str ''video''\<rparr>),
             Result_click (Some \<lparr>ds_id = Str ''b'', ds_title = Str ''B'', ds_type = Str ''video''\<rparr>),
             Play_response (Str ''a'') (Str ''A'')
               (Response 200 \<lparr>data_error = Undefined, data_audioUrl = Str ''urlA'',
                               data_title = Str ''Track A''\<rparr>),
             Play_response (Str ''b'') (Str ''B'')
               (Response 200 \<lparr>data_error = Undefined, data_audioUrl = Str ''urlB'',
                               data_title = Str ''Track B''\<rparr>)]
          initial_state)
     = Some \<lparr>audioUrl = Str ''urlB'', title = Str ''Track B''\<rparr>"
    by (simp add: js_or_def del: run.simps)
  with ok show ?thesis by blast
qed

text \<open>
  Claim C1 as stated fails: A is selected, then B, the answer for B arrives and then the
  answer for A; the track staged, and then played, is the resolution of A.
\<close>

theorem stale_response_counterexample:
  "nextAudioInfo
     (run [Result_click (Some \<lparr>ds_id = Str ''a'', ds_title = Str ''A'', ds_type = Str ''video''\<rparr>),
           Result_click (Some \<lparr>ds_id = Str ''b'', ds_title = Str ''B'', ds_type = Str ''video''\<rparr>),
           Play_response (Str ''b'') (Str ''B'')
             (Response 200 \<lparr>data_error = Undefined, data_audioUrl = Str ''urlB'',
                             data_title = Str ''Track B''\<rparr>),
           Play_response (Str ''a'') (Str ''A'')
             (Response 200 \<lparr>data_error = Undefined, data_audioUrl = Str ''urlA'',
                             data_title = Str ''Track A''\<rparr>)]
        initial_state)
     = Some \<lparr>audioUrl = Str ''urlA'', title = Str ''Track A''\<rparr>
   \<and> audioPlayer_src
     (run [Result_click (Some \<lparr>ds_id = Str ''a'', ds_title = Str ''A'', ds_type = Str ''video''\<rparr>),
           Result_click (Some \<lparr>ds_id = Str ''b'', ds_title = Str ''B'', ds_type = Str ''video''\<rparr>),
           Play_response (Str ''b'') (Str ''B'')
             (Response 200 \<lparr>data_error = Undefined, data_audioUrl = Str ''urlB'',
                             data_title = Str ''Track B''\<rparr>),
           Play_response (Str ''a'') (Str ''A'')
             (Response 200 \<lparr>data_error = Undefined, data_audioUrl = Str ''urlA'',
                             data_title = Str ''Track A''\<rparr>),
           Tts_ended]
        initial_state)
     = Some (Stream_url (Str ''urlA''))"
  by (simp add: handler_defs)

subsection \<open>Recovery from playback errors\<close>

lemma error_round_playlist:
  assumes "currentPlaylist s = Some p" and "playlist_ok p"
  shows "currentPlaylist (run (error_round x) s) =
           Some (p\<lparr>currentIndex := Suc (currentIndex p) mod length (videos p)\<rparr>)"
proof -
  obtain err videoId ttl r where x: "x = (err, videoId, ttl, r)" by (cases x) auto
  have "currentPlaylist (audioPlayer_error err s) = Some p" using assms(1) by simp
  from playNext_currentPlaylist[OF this assms(2)] x show ?thesis by simp
qed

lemma error_rounds_playlist:
  assumes "playlist_ok p"
  shows "currentPlaylist s = Some p \<Longrightarrow>
         currentPlaylist (run (concat (map error_round xs)) s) =
           Some (p\<lparr>currentIndex := (currentIndex p + length xs) mod length (videos p)\<rparr>)"
proof (induction xs rule: rev_induct)
  case Nil
  then show ?case using assms by (simp add: playlist_ok_def)
next
  case (snoc x xs)
  let ?q = "p\<lparr>currentIndex := (currentIndex p + length xs) mod length (videos p)\<rparr>"
  have "playlist_ok ?q" using assms by (rule playlist_ok_advance)
  from error_round_playlist[OF snoc.IH[OF snoc.prems] this, of x]
  show ?case by (simp add: run_append mod_Suc_eq)
qed

text \<open>
  Claim C2, as amended. On a well-formed active playlist the recovery from an error of the
  primary channel has no cap: after any number of failing rounds, whatever the answers to
  the requests, the playlist is still active with its cursor advanced once per round (with
  wraparound), a further error of the primary channel again schedules the retry and shows
  the message of that media error, and the retry requests the next item.
\<close>

theorem unbounded_retry:
  assumes "currentPlaylist s = Some p" and "playlist_ok p"
  shows "currentPlaylist (run (concat (map error_round xs)) s) =
           Some (p\<lparr>currentIndex := (currentIndex p + length xs) mod length (videos p)\<rparr>)
       \<and> new_effects (Audio_error err) (run (concat (map error_round xs)) s) = [Set_timeout_next]
       \<and> errorText (step (Audio_error err) (run (concat (map error_round xs)) s)) =
           playback_error_message err @ '' Try another track.''
       \<and> new_effects Timeout_fired
           (step (Audio_error err) (run (concat (map error_round xs)) s)) =
           [Fetch_play
              (video_id (videos p ! (Suc (currentIndex p + length xs) mod length (videos p))))]"
proof -
  let ?s = "run (concat (map error_round xs)) s"
  let ?q = "p\<lparr>currentIndex := (currentIndex p + length xs) mod length (videos p)\<rparr>"
  have q: "currentPlaylist ?s = Some ?q"
    using error_rounds_playlist[OF assms(2) assms(1)] .
  have okq: "playlist_ok ?q" using assms(2) by (rule playlist_ok_advance)
  have q': "currentPlaylist (step (Audio_error err) ?s) = Some ?q" using q by simp
  have "new_effects Next_click (step (Audio_error err) ?s) =
          [Fetch_play (video_id (videos ?q ! (Suc (currentIndex ?q) mod length (videos ?q))))]"
    using q' okq by (rule new_effects_next_ok)
  then have "new_effects Timeout_fired (step (Audio_error err) ?s) =
           [Fetch_play
              (video_id (videos p ! (Suc (currentIndex p + length xs) mod length (videos p))))]"
    by (simp add: new_effects_next mod_Suc_eq)
  moreover have "errorText (step (Audio_error err) ?s) =
           playback_error_message err @ '' Try another track.''"
    by (simp add: audioPlayer_error_def Let_def ui_defs)
  ultimately show ?thesis using q by (simp add: new_effects_simps)
qed


theorem unbounded_retry_witness:
  "playlist_ok
     \<lparr>pl_title = Str ''Chill'',
      videos = [\<lparr>video_id = Str ''a'', video_title = Str ''A''\<rparr>,
                \<lparr>video_id = Str ''b'', video_title = Str ''B''\<rparr>],
      currentIndex = 0\<rparr>
   \<and> currentPlaylist
       (run (concat (map error_round
               [(None, Str ''b'', Str ''B'', Fetch_failed ''Failed to fetch''),
                (None, Str ''a'', Str ''A'', Fetch_failed ''Failed to fetch'')]))
          (initial_state\<lparr>currentPlaylist :=
             Some \<lparr>pl_title = Str ''Chill'',
                   videos = [\<lparr>video_id = Str ''a'', video_title = Str ''A''\<rparr>,
                             \<lparr>video_id = Str ''b'', video_title = Str ''B''\<rparr>],
                   currentIndex = 0\<rparr>\<rparr>))
     = Some \<lparr>pl_title = Str ''Chill'',
             videos = [\<lparr>video_id = Str ''a'', video_title = Str ''A''\<rparr>,
                       \<lparr>video_id = Str ''b'', video_title = Str ''B''\<rparr>],
             currentIndex = 0\<rparr>
   \<and> new_effects (Audio_error None)
       (run (concat (map error_round
               [(None, Str ''b'', Str ''B'', Fetch_failed ''Failed to fetch''),
                (None, Str ''a'', Str ''A'', Fetch_failed ''Failed to fetch'')]))
          (initial_state\<lparr>currentPlaylist :=
             Some \<lparr>pl_title = Str ''Chill'',
                   videos = [\<lparr>video_id = Str ''a'', video_title = Str ''A''\<rparr>,
                             \<lparr>video_id = Str ''b'', video_title = Str ''B''\<rparr>],
                   currentIndex = 0\<rparr>\<rparr>))
     = [Set_timeout_next]"
proof -
  let ?p = "\<lparr>pl_title = Str ''Chill'',
      videos = [\<lparr>video_id = Str ''a'', video_title = Str ''A''\<rparr>,
                \<lparr>video_id = Str ''b'', video_title = Str ''B''\<rparr>],
      currentIndex = 0\<rparr>"
  let ?s = "initial_state\<lparr>currentPlaylist := Some ?p\<rparr>"
  let ?xs = "[(None, Str ''b'', Str ''B'', Fetch_failed ''Failed to fetch''),
              (None, Str ''a'', Str ''A'', Fetch_failed ''Failed to fetch'')]
             :: (media_error option \<times> js_value \<times> js_value \<times> play_data fetch_result) list"
  have ok: "playlist_ok ?p" by (simp add: playlist_ok_def)
  have cur: "currentPlaylist ?s = Some ?p" by simp
  from unbounded_retry[OF cur ok, of ?xs None]
  have "currentPlaylist (run (concat (map error_round ?xs)) ?s) = Some ?p
        \<and> new_effects (Audio_error None) (run (concat (map error_round ?xs)) ?s) = [Set_timeout_next]"
    by (simp del: run.simps error_round.simps)
  with ok show ?thesis by blast
qed

text \<open>
  Claim C2 as stated fails: on a playlist of two items the primary channel signals an
  error for the first item and then for the second, a full cycle without a success. The
  second error schedules the retry like the first, the retry requests the first item
  again, the playlist stays active and the message shown is the one of the media error.
\<close>

theorem unbounded_retry_counterexample:
  "currentPlaylist
     (run [Result_click (Some \<lparr>ds_id = Str ''PL1'', ds_title = Str ''Chill'',
                               ds_type = Str ''playlist''\<rparr>),
           Playlist_response
             (Response 200
                \<lparr>pd_error = Undefined, pd_title = Str ''Chill'',
                 pd_videos = Some [\<lparr>video_id = Str ''a'', video_title = Str ''A''\<rparr>,
                                   \<lparr>video_id = Str ''b'', video_title = Str ''B''\<rparr>]\<rparr>),
           Play_response (Str ''a'') (Str ''A'')
             (Response 200 \<lparr>data_error = Undefined, data_audioUrl = Str ''urlA'',
                             data_title = Str ''Track A''\<rparr>),
           Tts_ended,
           Audio_error (Some \<lparr>err_code = 4, err_message = Str []\<rparr>),
           Timeout_fired,
           Play_response (Str ''b'') (Str ''B'')
             (Response 200 \<lparr>data_error = Undefined, data_audioUrl = Str ''urlB'',
                             data_title = Str ''Track B''\<rparr>),
           Tts_ended,
           Audio_error (Some \<lparr>err_code = 4, err_message = Str []\<rparr>),
           Timeout_fired]
        initial_state)
     = Some \<lparr>pl_title = Str ''Chill'',
             videos = [\<lparr>video_id = Str ''a'', video_title = Str ''A''\<rparr>,
                       \<lparr>video_id = Str ''b'', video_title = Str ''B''\<rparr>],
             currentIndex = 0\<rparr>
   \<and> effects
     (run [Result_click (Some \<lparr>ds_id = Str ''PL1'', ds_title = Str ''Chill'',
                               ds_type = Str ''playlist''\<rparr>),
           Playlist_response
             (Response 200
                \<lparr>pd_error = Undefined, pd_title = Str ''Chill'',
                 pd_videos = Some [\<lparr>video_id = Str ''a'', video_title = Str ''A''\<rparr>,
                                   \<lparr>video_id = Str ''b'', video_title = Str ''B''\<rparr>]\<rparr>),
           Play_response (Str ''a'') (Str ''A'')
             (Response 200 \<lparr>data_error = Undefined, data_audioUrl = Str ''urlA'',
                             data_title = Str ''Track A''\<rparr>),
           Tts_ended,
           Audio_error (Some \<lparr>err_code = 4, err_message = Str []\<rparr>),
           Timeout_fired,
           Play_response (Str ''b'') (Str ''B'')
             (Response 200 \<lparr>data_error = Undefined, data_audioUrl = Str ''urlB'',
                             data_title = Str ''Track B''\<rparr>),
           Tts_ended,
           Audio_error (Some \<lparr>err_code = 4, err_message = Str []\<rparr>),
           Timeout_fired]
        initial_state)
     = [Fetch_playlist (Str ''PL1''),
        Fetch_play (Str ''a''),
        Channel_pause Primary,
        Channel_load Announcement (Tts_url ''Changing now to Track A''),
        Channel_play Announcement,
        Channel_load Primary (Stream_url (Str ''urlA'')),
        Channel_play Primary,
        Set_timeout_next,
        Fetch_play (Str ''b''),
        Channel_pause Primary,
        Channel_load Announcement (Tts_url ''Changing now to Track B''),
        Channel_play Announcement,
        Channel_load Primary (Stream_url (Str ''urlB'')),
        Channel_play Primary,
        Set_timeout_next,
        Fetch_play (Str ''a'')]
   \<and> errorText
     (run [Result_click (Some \<lparr>ds_id = Str ''PL1'', ds_title = Str ''Chill'',
                               ds_type = Str ''playlist''\<rparr>),
           Playlist_response
             (Response 200
                \<lparr>pd_error = Undefined, pd_title = Str ''Chill'',
                 pd_videos = Some [\<lparr>video_id = Str ''a'', video_title = Str ''A''\<rparr>,
                                   \<lparr>video_id = Str ''b'', video_title = Str ''B''\<rparr>]\<rparr>),
           Play_response (Str ''a'') (Str ''A'')
             (Response 200 \<lparr>data_error = Undefined, data_audioUrl = Str ''urlA'',
                             data_title = Str ''Track A''\<rparr>),
           Tts_ended,
           Audio_error (Some \<lparr>err_code = 4, err_message = Str []\<rparr>),
           Timeout_fired,
           Play_response (Str ''b'') (Str ''B'')
             (Response 200 \<lparr>data_error = Undefined, data_audioUrl = Str ''urlB'',
                             data_title = Str ''Track B''\<rparr>),
           Tts_ended,
           Audio_error (Some \<lparr>err_code = 4, err_message = Str []\<rparr>),
           Timeout_fired]
        initial_state)
     = ''Audio format not supported. Try another track.''"
  by (simp add: handler_defs playback_error_message_def MEDIA_ERR_ABORTED_def
      MEDIA_ERR_NETWORK_def MEDIA_ERR_DECODE_def MEDIA_ERR_SRC_NOT_SUPPORTED_def)

text \<open>
  Claim C3, at an input where the code departs from it: a playlist of two items is
  selected and the resolve call for its first item is answered with the status 404. The
  handler shows the error and does nothing else: the cursor stays on the first item, no
  retry is scheduled and the second item is never requested, where an error of the
  primary channel would have scheduled the advance to the next item.
\<close>

theorem resolve_failure_halts_playlist:
  "currentPlaylist
     (run [Result_click (Some \<lparr>ds_id = Str ''PL1'', ds_title = Str ''Chill'',
                               ds_type = Str ''playlist''\<rparr>),
           Playlist_response
             (Response 200
                \<lparr>pd_error = Undefined, pd_title = Str ''Chill'',
                 pd_videos = Some [\<lparr>video_id = Str ''a'', video_title = Str ''A''\<rparr>,
                                   \<lparr>video_id = Str ''b'', video_title = Str ''B''\<rparr>]\<rparr>),
           Play_response (Str ''a'') (Str ''A'')
             (Response 404
                \<lparr>data_error = Str ''Video is private, unavailable, or not found.'',
                 data_audioUrl = Undefined, data_title = Undefined\<rparr>)]
        initial_state)
     = Some \<lparr>pl_title = Str ''Chill'',
             videos = [\<lparr>video_id = Str ''a'', video_title = Str ''A''\<rparr>,
                       \<lparr>video_id = Str ''b'', video_title = Str ''B''\<rparr>],
             currentIndex = 0\<rparr>
   \<and> effects
     (run [Result_click (Some \<lparr>ds_id = Str ''PL1'', ds_title = Str ''Chill'',
                               ds_type = Str ''playlist''\<rparr>),
           Playlist_response
             (Response 200
                \<lparr>pd_error = Undefined, pd_title = Str ''Chill'',
                 pd_videos = Some [\<lparr>video_id = Str ''a'', video_title = Str ''A''\<rparr>,
                                   \<lparr>video_id = Str ''b'', video_title = Str ''B''\<rparr>]\<rparr>),
           Play_response (Str ''a'') (Str ''A'')
             (Response 404
                \<lparr>data_error = Str ''Video is private, unavailable, or not found.'',
                 data_audioUrl = Undefined, data_title = Undefined\<rparr>)]
        initial_state)
     = [Fetch_playlist (Str ''PL1''), Fetch_play (Str ''a'')]
   \<and> errorText
     (run [Result_click (Some \<lparr>ds_id = Str ''PL1'', ds_title = Str ''Chill'',
                               ds_type = Str ''playlist''\<rparr>),
           Playlist_response
             (Response 200
                \<lparr>pd_error = Undefined, pd_title = Str ''Chill'',
                 pd_videos = Some [\<lparr>video_id = Str ''a'', video_title = Str ''A''\<rparr>,
                                   \<lparr>video_id = Str ''b'', video_title = Str ''B''\<rparr>]\<rparr>),
           Play_response (Str ''a'') (Str ''A'')
             (Response 404
                \<lparr>data_error = Str ''Video is private, unavailable, or not found.'',
                 data_audioUrl = Undefined, data_title = Undefined\<rparr>)]
        initial_state)
     = ''Failed to load track: Video is private, unavailable, or not found.''"
  by (simp add: handler_defs)

section \<open>Properties of the server\<close>

lemma truthy_iff: "truthy v \<longleftrightarrow> (\<exists>x. v = Str x \<and> x \<noteq> [])"
  by (cases v) simp_all

text \<open>
  Claim C9, as amended. For every text, \<open>/api/tts\<close> answers with the client error
  ``Text length exceeds maximum limit'' if and only if the text is longer than 200, whatever
  the synthesis would do; it answers with the client error ``text is required'' when the
  text is empty or missing; otherwise it answers with the audio stream of the synthesis,
  or with the status 500 when the synthesis throws.
\<close>

theorem tts_length_gate:
  "(api_tts (Str txt) gtts =
      Reply_error 400 ''Text length exceeds maximum limit (200 characters).'' None)
     = (length txt > 200)
   \<and> (txt = [] \<longrightarrow>
        api_tts (Str txt) gtts =
          Reply_error 400 ''Text query parameter \"text\" is required.'' None)
   \<and> api_tts Undefined gtts =
        Reply_error 400 ''Text query parameter \"text\" is required.'' None
   \<and> (txt \<noteq> [] \<and> length txt \<le> 200 \<longrightarrow>
        api_tts (Str txt) gtts =
          (case gtts txt of
             Throws msg \<Rightarrow> Reply_error 500 ''Failed to generate TTS audio.'' (Some msg)
           | Returns audio \<Rightarrow> Reply_ok audio))"
  by (auto simp: api_tts_def split: outcome.splits)

theorem tts_length_gate_witness:
  "api_tts (Str (replicate 201 CHR ''a'')) (\<lambda>t. Returns t) =
      Reply_error 400 ''Text length exceeds maximum limit (200 characters).'' None
   \<and> api_tts (Str []) (\<lambda>t. Returns t) =
      Reply_error 400 ''Text query parameter \"text\" is required.'' None
   \<and> api_tts (Str ''Changing now to Track A'') (\<lambda>t. Returns t) =
      Reply_ok ''Changing now to Track A''"
proof -
  have "length (replicate 201 CHR ''a'') > 200" by simp
  with tts_length_gate[of "replicate 201 CHR ''a''" "\<lambda>t. Returns t"]
  have a: "api_tts (Str (replicate 201 CHR ''a'')) (\<lambda>t. Returns t) =
      Reply_error 400 ''Text length exceeds maximum limit (200 characters).'' None"
    by blast
  from tts_length_gate[of "[]" "\<lambda>t. Returns t"]
  have b: "api_tts (Str []) (\<lambda>t. Returns t) =
      Reply_error 400 ''Text query parameter \"text\" is required.'' None"
    by blast
  from tts_length_gate[of "''Changing now to Track A''" "\<lambda>t. Returns t"]
  have c: "api_tts (Str ''Changing now to Track A'') (\<lambda>t. Returns t) =
      Reply_ok ''Changing now to Track A''"
    by simp
  from a b c show ?thesis by blast
qed

text \<open>
  Claim C9 as stated fails: a text that is neither empty nor too long gets no audio when
  the synthesis throws, but the status 500.
\<close>

theorem tts_synthesis_failure_counterexample:
  "api_tts (Str ''Changing now to Track A'') (\<lambda>t. Throws ''synthesis unavailable'')
     = (Reply_error 500 ''Failed to generate TTS audio.'' (Some ''synthesis unavailable'')
        :: string reply)"
  by (simp add: api_tts_def)

lemma filter_truthy:
  "x \<in> set (filter (\<lambda>v. truthy (f v) \<and> truthy (g v)) xs) \<Longrightarrow>
   (\<exists>a. f x = Str a \<and> a \<noteq> []) \<and> (\<exists>b. g x = Str b \<and> b \<noteq> [])"
  by (simp add: truthy_iff)

lemma api_search_ok:
  "api_search q youtube_search = Reply_ok items \<Longrightarrow>
   \<exists>results. youtube_search (to_text q @ '' chill relaxing music'') = Returns results \<and>
     items = filter (\<lambda>item. truthy (item_id item) \<and> truthy (item_title item))
               (map simplify_result results)"
  by (auto simp: api_search_def split: if_splits outcome.splits)

lemma api_playlist_ok:
  "api_playlist playlistId youtube_getPlaylist = Reply_ok body \<Longrightarrow>
   \<exists>pl vs. youtube_getPlaylist (to_text playlistId) = Returns (Some pl) \<and>
     ytp_videos pl = Some vs \<and>
     body_videos body = filter (\<lambda>v. truthy (pv_id v) \<and> truthy (pv_title v))
               (map simplify_video vs)"
  by (auto simp: api_playlist_def split: if_splits outcome.splits option.splits list.splits)

text \<open>
  Claim C10. Every item \<open>/api/search\<close> returns, and every video \<open>/api/playlist\<close>
  returns, has an id and a title that are non-empty strings: what is returned is the list
  the library gave, simplified, with the entries missing either field filtered out.
\<close>

theorem returned_items_have_id_and_title:
  "(api_search q youtube_search = Reply_ok items \<longrightarrow>
      (\<forall>item\<in>set items.
         (\<exists>a. item_id item = Str a \<and> a \<noteq> []) \<and> (\<exists>b. item_title item = Str b \<and> b \<noteq> []))
      \<and> (\<exists>results. youtube_search (to_text q @ '' chill relaxing music'') = Returns results \<and>
           items = filter (\<lambda>item. truthy (item_id item) \<and> truthy (item_title item))
                     (map simplify_result results)))
   \<and> (api_playlist playlistId youtube_getPlaylist = Reply_ok body \<longrightarrow>
      (\<forall>v\<in>set (body_videos body).
         (\<exists>a. pv_id v = Str a \<and> a \<noteq> []) \<and> (\<exists>b. pv_title v = Str b \<and> b \<noteq> []))
      \<and> (\<exists>pl vs. youtube_getPlaylist (to_text playlistId) = Returns (Some pl) \<and>
           ytp_videos pl = Some vs \<and>
           body_videos body = filter (\<lambda>v. truthy (pv_id v) \<and> truthy (pv_title v))
                     (map simplify_video vs)))"
proof (intro conjI impI)
  assume a: "api_search q youtube_search = Reply_ok items"
  from api_search_ok[OF a]
  show "\<exists>results. youtube_search (to_text q @ '' chill relaxing music'') = Returns results \<and>
           items = filter (\<lambda>item. truthy (item_id item) \<and> truthy (item_title item))
                     (map simplify_result results)" .
  then show "\<forall>item\<in>set items.
         (\<exists>a. item_id item = Str a \<and> a \<noteq> []) \<and> (\<exists>b. item_title item = Str b \<and> b \<noteq> [])"
    using filter_truthy[of _ item_id item_title] by blast
next
  assume a: "api_playlist playlistId youtube_getPlaylist = Reply_ok body"
  from api_playlist_ok[OF a]
  show "\<exists>pl vs. youtube_getPlaylist (to_text playlistId) = Returns (Some pl) \<and>
           ytp_videos pl = Some vs \<and>
           body_videos body = filter (\<lambda>v. truthy (pv_id v) \<and> truthy (pv_title v))
                     (map simplify_video vs)" .
  then show "\<forall>v\<in>set (body_videos body).
         (\<exists>a. pv_id v = Str a \<and> a \<noteq> []) \<and> (\<exists>b. pv_title v = Str b \<and> b \<noteq> [])"
    using filter_truthy[of _ pv_id pv_title] by metis
qed


theorem returned_items_have_id_and_title_witness:
  "api_search (Str ''lofi'')
     (\<lambda>query. Returns
        [\<lparr>yt_id = Str ''a'', yt_title = Str ''A'', yt_thumbnail = None,
          yt_durationFormatted = Str ''3:00''\<rparr>,
         \<lparr>yt_id = Str ''b'', yt_title = Undefined, yt_thumbnail = None,
          yt_durationFormatted = Str ''4:00''\<rparr>])
     = Reply_ok [\<lparr>item_id = Str ''a'', item_title = Str ''A'', item_thumbnail = Undefined,
                  item_duration = Str ''3:00''\<rparr>]
   \<and> (\<exists>a. item_id \<lparr>item_id = Str ''a'', item_title = Str ''A'', item_thumbnail = Undefined,
                  item_duration = Str ''3:00''\<rparr> = Str a \<and> a \<noteq> [])
   \<and> api_playlist (Str ''PL1'')
       (\<lambda>i. Returns (Some
          \<lparr>ytp_title = Str ''Chill'',
           ytp_videos = Some
             [\<lparr>yt_id = Str ''a'', yt_title = Str ''A'', yt_thumbnail = None,
               yt_durationFormatted = Str ''3:00''\<rparr>,
              \<lparr>yt_id = Null, yt_title = Str ''B'', yt_thumbnail = None,
               yt_durationFormatted = Str ''4:00''\<rparr>]\<rparr>))
     = Reply_ok \<lparr>body_title = Str ''Chill'',
                 body_videos = [\<lparr>pv_id = Str ''a'', pv_title = Str ''A'',
                                 pv_duration = Str ''3:00''\<rparr>]\<rparr>
   \<and> (\<exists>b. pv_title \<lparr>pv_id = Str ''a'', pv_title = Str ''A'', pv_duration = Str ''3:00''\<rparr> = Str b
          \<and> b \<noteq> [])"
proof -
  let ?f = "\<lambda>query::string. Returns
        [\<lparr>yt_id = Str ''a'', yt_title = Str ''A'', yt_thumbnail = None,
          yt_durationFormatted = Str ''3:00''\<rparr>,
         \<lparr>yt_id = Str ''b'', yt_title = Undefined, yt_thumbnail = None,
          yt_durationFormatted = Str ''4:00''\<rparr>]"
  let ?i = "\<lparr>item_id = Str ''a'', item_title = Str ''A'', item_thumbnail = Undefined,
                  item_duration = Str ''3:00''\<rparr>"
  let ?g = "\<lambda>i::string. Returns (Some
          \<lparr>ytp_title = Str ''Chill'',
           ytp_videos = Some
             [\<lparr>yt_id = Str ''a'', yt_title = Str ''A'', yt_thumbnail = None,
               yt_durationFormatted = Str ''3:00''\<rparr>,
              \<lparr>yt_id = Null, yt_title = Str ''B'', yt_thumbnail = None,
               yt_durationFormatted = Str ''4:00''\<rparr>]\<rparr>)"
  let ?v = "\<lparr>pv_id = Str ''a'', pv_title = Str ''A'', pv_duration = Str ''3:00''\<rparr>"
  let ?b = "\<lparr>body_title = Str ''Chill'', body_videos = [?v]\<rparr>"
  have s: "api_search (Str ''lofi'') ?f = Reply_ok [?i]"
    by (simp add: api_search_def simplify_result_def)
  have p: "api_playlist (Str ''PL1'') ?g = Reply_ok ?b"
    by (simp add: api_playlist_def simplify_video_def valid_playlist_id_def js_or_def)
  note T = returned_items_have_id_and_title[of "Str ''lofi''" ?f "[?i]" "Str ''PL1''" ?g ?b]
  from T s have "\<forall>item\<in>set [?i].
         (\<exists>a. item_id item = Str a \<and> a \<noteq> []) \<and> (\<exists>b. item_title item = Str b \<and> b \<noteq> [])"
    by blast
  then have a: "\<exists>a. item_id ?i = Str a \<and> a \<noteq> []" by simp
  from T p have "\<forall>v\<in>set (body_videos ?b).
         (\<exists>a. pv_id v = Str a \<and> a \<noteq> []) \<and> (\<exists>b. pv_title v = Str b \<and> b \<noteq> [])"
    by blast
  then have b: "\<exists>b. pv_title ?v = Str b \<and> b \<noteq> []" by simp
  from s a p b show ?thesis by blast
qed

end
